theory Spec2Isabelle
  imports Main "HOL-Library.Sublist"
begin

section \<open>The theme generator of @carbon/themes (packages/themes/tasks/build.js)\<close>

text \<open>
  The script reads a list of colour tokens, a collection of themes and a metadata
  document, and writes three SCSS files. Its collaborators are parameters of the model:
  \<^item> \<open>fmt\<close> is \<open>formatTokenName\<close> of \<open>../lib\<close>, which is not part of build.js;
  \<^item> \<open>prettier\<close> is \<open>prettier.format\<close> with the fixed options; it may throw;
  \<^item> \<open>loaded\<close> is the outcome of \<open>yaml.safeLoad(fs.readFileSync(METADATA_FILE))\<close>:
    an error, or the parsed document.
  JavaScript strings are modelled as \<open>string\<close>; all text that build.js itself produces
  is ASCII.
\<close>

subsection \<open>Data\<close>

text \<open>
  The parsed metadata document is a graph of objects, not a tree: the loader gives one
  object per node and makes an alias node the very object of its anchor, so two entries
  can hold the same role array and the token sequence can hold one entry twice. Since
  \<open>transformMetadata\<close> rewrites role arrays and aliases in place, the document is
  modelled with its store: entries and role arrays are held by reference.
\<close>

type_synonym ref = nat

text \<open>
  An entry object \<open>{name, role?, alias?, deprecated?}\<close>; a missing field is \<open>None\<close>, and
  \<open>role\<close> refers to an array of strings in the store.
\<close>

record tokenMeta =
  name :: string
  role :: "ref option"
  "alias" :: "string option"
  deprecated :: "bool option"

text \<open>
  The document: the sequence \<open>tokens\<close> of references to entry objects (absent in \<open>{}\<close>),
  the entry objects and the role arrays of the store.
\<close>

record metadata =
  tokens :: "ref list option"
  objects :: "ref \<Rightarrow> tokenMeta"
  arrays :: "ref \<Rightarrow> string list"

text \<open>The object \<open>{}\<close>: no field \<open>tokens\<close>, and nothing of interest in the store.\<close>

definition emptyMetadata :: metadata where
  "emptyMetadata =
     \<lparr>tokens = None,
      objects = (\<lambda>r. \<lparr>name = [], role = None, alias = None, deprecated = None\<rparr>),
      arrays = (\<lambda>a. [])\<rparr>"

text \<open>
  A JavaScript object with string keys, as the list of its entries in the order of
  \<open>Object.keys\<close>. Keys are unique, so \<open>obj[key]\<close> for a key of \<open>Object.keys(obj)\<close> is
  the value paired with it.
\<close>

type_synonym theme = "(string \<times> string) list"

type_synonym themes = "(string \<times> theme) list"

datatype error = LoadError | TypeError | FormatError

subsection \<open>Constants\<close>

definition FILE_BANNER :: string where
  "FILE_BANNER =
     ''// Code generated by @carbon/themes. DO NOT EDIT.\<newline>'' @
     ''//\<newline>'' @
     ''// Copyright IBM Corp. 2018, 2018\<newline>'' @
     ''//\<newline>'' @
     ''// This source code is licensed under the Apache-2.0 license found in the\<newline>'' @
     ''// LICENSE file in the root directory of this source tree.\<newline>'' @
     ''//\<newline>''"

text \<open>Paths are kept relative to the package directory.\<close>

definition SCSS_DIR :: string where
  "SCSS_DIR = ''scss''"

definition MIXINS_ENTRYPOINT :: string where
  "MIXINS_ENTRYPOINT = ''scss/_mixins.scss''"

definition TOKENS_ENTRYPOINT :: string where
  "TOKENS_ENTRYPOINT = ''scss/_tokens.scss''"

definition MAPS_ENTRYPOINT :: string where
  "MAPS_ENTRYPOINT = ''scss/_theme-maps.scss''"

definition defaultTheme :: string where
  "defaultTheme = ''white''"

definition defaultThemeMapName :: string where
  "defaultThemeMapName = ''$carbon--theme''"

subsection \<open>String helpers of the JavaScript library\<close>

text \<open>\<open>Array.prototype.join\<close>.\<close>

fun join :: "string \<Rightarrow> string list \<Rightarrow> string" where
  "join sep [] = []"
| "join sep [x] = x"
| "join sep (x # y # ys) = x @ sep @ join sep (y # ys)"

text \<open>
  The regular expression \<open>new RegExp(names.join('|'), 'g')\<close> is modelled by the list of
  its alternatives. This is what the pattern means when every name is a literal pattern
  (letters and digits, as token identifiers are): names with regular-expression
  metacharacters are outside the model. The empty list of names gives the empty source,
  which is the pattern with one empty alternative.
\<close>

definition literalName :: "string \<Rightarrow> bool" where
  "literalName n = list_all (\<lambda>c. c \<in> set
     ''abcdefghijklmnopqrstuvwxyzABCDEFGHIJKLMNOPQRSTUVWXYZ0123456789'') n"

definition namesRegEx :: "string list \<Rightarrow> string list" where
  "namesRegEx names = (if names = [] then [[]] else names)"

text \<open>
  A match attempt at the start of \<open>s\<close>: alternatives are tried in order and the first
  one that matches wins, whether or not a later one is longer.
\<close>

definition execAt :: "string list \<Rightarrow> string \<Rightarrow> string option" where
  "execAt alts s = find (\<lambda>a. prefix a s) alts"

text \<open>
  \<open>String.prototype.replace\<close> with a global pattern and a replacement function: the
  string is scanned from the left; where no alternative matches, the character is copied;
  a match is replaced and the scan resumes behind it; after an empty match the next
  character is copied, and an empty match at the very end is replaced as well.
\<close>

function replaceAll :: "string list \<Rightarrow> (string \<Rightarrow> string) \<Rightarrow> string \<Rightarrow> string" where
  "replaceAll alts f s =
     (case execAt alts s of
        None \<Rightarrow> (case s of [] \<Rightarrow> [] | c # cs \<Rightarrow> c # replaceAll alts f cs)
      | Some m \<Rightarrow>
          (if m = [] then (case s of [] \<Rightarrow> f m | c # cs \<Rightarrow> f m @ c # replaceAll alts f cs)
           else f m @ replaceAll alts f (drop (length m) s)))"
  by pat_completeness auto

termination
proof (relation "measure (\<lambda>(alts, f, s). length s)")
  fix alts :: "string list" and f :: "string \<Rightarrow> string" and s m :: string
  assume "execAt alts s = Some m" and "m \<noteq> []"
  then have "prefix m s" and "m \<noteq> []"
    by (auto simp: execAt_def find_Some_iff)
  then have "s \<noteq> []"
    by auto
  with \<open>m \<noteq> []\<close> show "((alts, f, drop (length m) s), (alts, f, s)) \<in> measure (\<lambda>(alts, f, s). length s)"
    by simp
qed auto

declare replaceAll.simps [simp del]

subsection \<open>transformMetadata\<close>

text \<open>\<open>metadata.tokens.map(token => token.name)\<close>.\<close>

definition tokenNames :: "metadata \<Rightarrow> ref list \<Rightarrow> string list" where
  "tokenNames md rs = map (\<lambda>r. name (objects md r)) rs"

definition replaceMap :: "(string \<Rightarrow> string) \<Rightarrow> string list \<Rightarrow> (string \<rightharpoonup> string)" where
  "replaceMap fmt names = fold (\<lambda>n m. m(n \<mapsto> fmt n)) names Map.empty"

text \<open>The replacement function; a key missing from \<open>replaceMap\<close> reads as \<open>undefined\<close>.\<close>

definition replacement :: "(string \<rightharpoonup> string) \<Rightarrow> string \<Rightarrow> string" where
  "replacement rm m = ''`$'' @ (case rm m of Some v \<Rightarrow> v | None \<Rightarrow> ''undefined'') @ ''`''"

text \<open>
  The body of the \<open>forEach\<close> for the entry at \<open>r\<close>: when the entry has a role array,
  every element of that array is overwritten with its rewritten text; then a non-empty
  alias of the entry is overwritten with its formatted name (the empty string is
  falsy). Both writes go to the store, so they are seen through every reference.
\<close>

definition transformToken ::
  "(string \<Rightarrow> string) \<Rightarrow> string list \<Rightarrow> (string \<rightharpoonup> string) \<Rightarrow> ref \<Rightarrow> metadata \<Rightarrow> metadata" where
  "transformToken fmt re rm r md =
     (let md1 = (case role (objects md r) of
                   None \<Rightarrow> md
                 | Some a \<Rightarrow>
                     md\<lparr>arrays := (arrays md)(a := map (replaceAll re (replacement rm)) (arrays md a))\<rparr>)
      in case alias (objects md1 r) of
           None \<Rightarrow> md1
         | Some al \<Rightarrow>
             if al \<noteq> []
             then md1\<lparr>objects := (objects md1)(r := (objects md1 r)\<lparr>alias := Some (fmt al)\<rparr>)\<rparr>
             else md1)"

text \<open>
  Reading \<open>metadata.tokens.map\<close> without a \<open>tokens\<close> field throws a TypeError. The
  pattern and \<open>replaceMap\<close> are built once, before the loop over the entries.
\<close>

definition transformMetadata :: "(string \<Rightarrow> string) \<Rightarrow> metadata \<Rightarrow> error + metadata" where
  "transformMetadata fmt md =
     (case tokens md of
        None \<Rightarrow> Inl TypeError
      | Some rs \<Rightarrow>
          Inr (fold (transformToken fmt (namesRegEx (tokenNames md rs)) (replaceMap fmt (tokenNames md rs)))
                 rs md))"

subsection \<open>The three bodies\<close>

definition themeMap :: "(string \<Rightarrow> string) \<Rightarrow> string \<times> theme \<Rightarrow> string" where
  "themeMap fmt entry =
     (case entry of (nm, theme) \<Rightarrow>
        fold (\<lambda>(key, val) scssMap. scssMap @ ''  '' @ fmt key @ '': '' @ val @ '','' @ ''\<newline>'')
          theme
          (''/// Carbon's '' @ nm @ '' color theme\<newline>'' @
           ''/// @type Map\<newline>'' @
           ''/// @access public\<newline>'' @
           ''/// @group @carbon/themes\<newline>'' @
           ''$carbon--theme--'' @ nm @ '': (\<newline>'')
        @ '') !default;'' @ ''\<newline>'')"

definition themeMaps :: "(string \<Rightarrow> string) \<Rightarrow> themes \<Rightarrow> string" where
  "themeMaps fmt ths = join ''\<newline>'' (map (themeMap fmt) ths)"

text \<open>The template literal that starts \<open>themeMixin\<close>, in two parts: its comment lines ...\<close>

definition themeMixinDoc :: string where
  "themeMixinDoc =
     ''/// Define theme variables from a map of tokens\<newline>'' @
     ''/// @access public\<newline>'' @
     ''/// @param {Map} $theme ['' @ defaultThemeMapName @ ''] - Map of theme tokens\<newline>'' @
     ''/// @content Pass in your custom declaration blocks to be used after the token maps set theming variables.\<newline>'' @
     ''///\<newline>'' @
     ''/// @example scss\<newline>'' @
     ''///   // Default usage\<newline>'' @
     ''///   @include carbon--theme();\<newline>'' @
     ''///\<newline>'' @
     ''///   // Alternate styling (not white theme)\<newline>'' @
     ''///   @include carbon--theme($carbon--theme--g90) {\<newline>'' @
     ''///     // declarations...\<newline>'' @
     ''///   }\<newline>'' @
     ''///\<newline>'' @
     ''///   // Inline styling\<newline>'' @
     ''///   @include carbon--theme($carbon--theme--g90) {\<newline>'' @
     ''///     .my-dark-theme {\<newline>'' @
     ''///       // declarations...\<newline>'' @
     ''///     }\<newline>'' @
     ''///   }\<newline>'' @
     ''///\<newline>'' @
     ''/// @group @carbon/themes\<newline>''"

text \<open>... and its last line, the signature of the mixin.\<close>

definition themeMixinHead :: string where
  "themeMixinHead =
     themeMixinDoc @
     ''@mixin carbon--theme($theme: '' @ defaultThemeMapName @ '') {\<newline>''"

definition themeMixin :: "(string \<Rightarrow> string) \<Rightarrow> string list \<Rightarrow> string" where
  "themeMixin fmt tokenColors =
     fold (\<lambda>token acc.
             acc @ ''    $'' @ fmt token @ '': map-get($theme, '' @ fmt token @ '') !global;\<newline>'')
       tokenColors themeMixinHead
     @ ''\<newline>''
     @ ''  @content;''
     @ ''\<newline>''
     @ ''\<newline>''
     @ ''  // Reset to default theme after apply in content''
     @ ''\<newline>''
     @ (''  @if $theme != '' @ defaultThemeMapName @ '' {\<newline>'' @
        ''    @include carbon--theme;\<newline>'' @
        ''  }'')
     @ ''\<newline>''
     @ ''}''"

definition mixinsFile :: "(string \<Rightarrow> string) \<Rightarrow> string list \<Rightarrow> string" where
  "mixinsFile fmt tokenColors =
     FILE_BANNER @ ''\<newline>'' @
     ''@import './theme-maps';\<newline>'' @
     ''\<newline>'' @
     themeMixin fmt tokenColors"

definition themeMapsFile :: "(string \<Rightarrow> string) \<Rightarrow> themes \<Rightarrow> string" where
  "themeMapsFile fmt ths =
     FILE_BANNER @ ''\<newline>'' @
     themeMaps fmt ths @ ''\<newline>'' @
     ''\<newline>'' @
     ''/// Carbon's default theme\<newline>'' @
     ''/// @type Map\<newline>'' @
     ''/// @access public\<newline>'' @
     ''/// @alias carbon--theme--'' @ defaultTheme @ ''\<newline>'' @
     ''/// @group @carbon/themes\<newline>'' @
     defaultThemeMapName @ '': $carbon--theme--'' @ defaultTheme @ '' !default;\<newline>''"

text \<open>
  The lookup \<open>(metadata.tokens && metadata.tokens.find(...)) || {}\<close>: the first entry of
  the sequence with that name; the object \<open>{}\<close>, all of whose fields are undefined, is
  \<open>None\<close>.
\<close>

definition tokenData :: "metadata \<Rightarrow> string \<Rightarrow> tokenMeta option" where
  "tokenData md token =
     (case tokens md of
        None \<Rightarrow> None
      | Some rs \<Rightarrow>
          (case find (\<lambda>r. name (objects md r) = token) rs of
             None \<Rightarrow> None
           | Some r \<Rightarrow> Some (objects md r)))"

text \<open>
  The documentation comment of one token (the four appends before the declaration
  line); \<open>arr\<close> is the store of role arrays. An array is truthy even when empty; the
  empty string and \<open>false\<close> are falsy.
\<close>

definition tokenDoc :: "(ref \<Rightarrow> string list) \<Rightarrow> tokenMeta option \<Rightarrow> string" where
  "tokenDoc arr td =
     (case (case td of None \<Rightarrow> None | Some t \<Rightarrow> role t) of
        Some a \<Rightarrow> ''\<newline>\<newline>/// '' @ join ''; '' (arr a) @ ''\<newline>''
      | None \<Rightarrow> ''\<newline>\<newline>'')
     @ (''/// @type Color\<newline>'' @
        ''/// @access public\<newline>'' @
        ''/// @group @carbon/themes'')
     @ (case (case td of None \<Rightarrow> None | Some t \<Rightarrow> alias t) of
          Some a \<Rightarrow> if a \<noteq> [] then ''\<newline>/// @alias '' @ a else []
        | None \<Rightarrow> [])
     @ (case (case td of None \<Rightarrow> None | Some t \<Rightarrow> deprecated t) of
          Some d \<Rightarrow> if d then ''\<newline>/// @deprecated'' else []
        | None \<Rightarrow> [])"

definition tokensFile :: "(string \<Rightarrow> string) \<Rightarrow> string list \<Rightarrow> metadata \<Rightarrow> string" where
  "tokensFile fmt tokenColors md =
     fold (\<lambda>token acc.
             acc @ tokenDoc (arrays md) (tokenData md token)
                 @ ''\<newline>$'' @ fmt token @ '': map-get('' @ defaultThemeMapName @ '', ''
                 @ fmt token @ '') !default;\<newline>'')
       tokenColors
       (FILE_BANNER @ ''\<newline>'' @
        ''@import './theme-maps';\<newline>\<newline>'')"

subsection \<open>The run\<close>

text \<open>
  The world of a run: the files on disk and the calls made to the reporter, the console,
  the formatter and the file system, in order. Failures of the file system itself are
  not modelled.
\<close>

datatype event =
    Info string
  | Success string
  | ConsoleError error
  | EnsureDir string
  | Format string
  | WriteFile string string

record world =
  files :: "string \<rightharpoonup> string"
  trace :: "event list"

definition emit :: "event \<Rightarrow> world \<Rightarrow> world" where
  "emit e w = w\<lparr>trace := trace w @ [e]\<rparr>"

definition writeFile :: "string \<Rightarrow> string \<Rightarrow> world \<Rightarrow> world" where
  "writeFile path content w = emit (WriteFile path content) (w\<lparr>files := (files w)(path \<mapsto> content)\<rparr>)"

definition format :: "(string \<Rightarrow> error + string) \<Rightarrow> string \<Rightarrow> world \<Rightarrow> (error + string) \<times> world" where
  "format prettier body w = (prettier body, emit (Format body) w)"

text \<open>
  The \<open>try\<close> block: whatever is thrown by the load or by \<open>transformMetadata\<close> is written
  to the console and \<open>metadata\<close> keeps its initial value \<open>{}\<close>.
\<close>

definition loadMetadata :: "(string \<Rightarrow> string) \<Rightarrow> error + metadata \<Rightarrow> world \<Rightarrow> metadata \<times> world" where
  "loadMetadata fmt loaded w =
     (case loaded of
        Inl e \<Rightarrow> (emptyMetadata, emit (ConsoleError e) w)
      | Inr doc \<Rightarrow>
          (case transformMetadata fmt doc of
             Inl e \<Rightarrow> (emptyMetadata, emit (ConsoleError e) w)
           | Inr md \<Rightarrow> (md, w)))"

text \<open>
  \<open>build\<close>: the arguments of each \<open>writeFile\<close> are evaluated before the call, so a
  formatter that throws leaves the file untouched and rejects the promise.
\<close>

definition build ::
  "(string \<Rightarrow> string) \<Rightarrow> (string \<Rightarrow> error + string) \<Rightarrow> themes \<Rightarrow> string list \<Rightarrow>
   error + metadata \<Rightarrow> world \<Rightarrow> (error + unit) \<times> world" where
  "build fmt prettier ths tokenColors loaded w0 =
     (let w1 = emit (Info ''Building scss files for themes...'') w0;
          (md, w2) = loadMetadata fmt loaded w1;
          w3 = emit (EnsureDir SCSS_DIR) w2
      in case format prettier (tokensFile fmt tokenColors md) w3 of
           (Inl e, w4) \<Rightarrow> (Inl e, w4)
         | (Inr out1, w4) \<Rightarrow>
             (let w5 = writeFile TOKENS_ENTRYPOINT out1 w4
              in case format prettier (mixinsFile fmt tokenColors) w5 of
                   (Inl e, w6) \<Rightarrow> (Inl e, w6)
                 | (Inr out2, w6) \<Rightarrow>
                     (let w7 = writeFile MIXINS_ENTRYPOINT out2 w6
                      in case format prettier (themeMapsFile fmt ths) w7 of
                           (Inl e, w8) \<Rightarrow> (Inl e, w8)
                         | (Inr out3, w8) \<Rightarrow>
                             (let w9 = writeFile MAPS_ENTRYPOINT out3 w8
                              in (Inr (), emit (Success (''Done! '' @ [CHR 0xF0, CHR 0x9F, CHR 0x8E, CHR 0x89])) w9)))))"

text \<open>The last statement of the script: \<open>build().catch(error => console.error(error))\<close>.\<close>

definition main ::
  "(string \<Rightarrow> string) \<Rightarrow> (string \<Rightarrow> error + string) \<Rightarrow> themes \<Rightarrow> string list \<Rightarrow>
   error + metadata \<Rightarrow> world \<Rightarrow> world" where
  "main fmt prettier ths tokenColors loaded w0 =
     (case build fmt prettier ths tokenColors loaded w0 of
        (Inl e, w) \<Rightarrow> emit (ConsoleError e) w
      | (Inr u, w) \<Rightarrow> w)"

subsection \<open>The name formatter\<close>

text \<open>
  Modelled from the spec: the digits and the upper-case letters, which the name
  formatter below tells apart (\<open>../lib\<close>, where it is defined, is not among the sources).
\<close>

definition isDigit :: "char \<Rightarrow> bool" where
  "isDigit c = (c \<in> set ''0123456789'')"

definition toLowerCase :: "char \<Rightarrow> char option" where
  "toLowerCase c = map_of (zip ''ABCDEFGHIJKLMNOPQRSTUVWXYZ'' ''abcdefghijklmnopqrstuvwxyz'') c"

text \<open>
  Modelled from the spec: \<open>formatTokenName\<close> is defined in \<open>../lib\<close>, which is not among
  the sources. The spec (4.1) says: identifiers are camelCase-like with a numeric suffix;
  the formatter inserts a separator before the digit group and converts to hyphenated
  lower case, as in \<open>interactive01\<close> to \<open>interactive-01\<close>; other shapes pass through.
  The theorems below hold for every formatter; this one serves the concrete runs.
\<close>

fun formatTokenName :: "string \<Rightarrow> string" where
  "formatTokenName [] = []"
| "formatTokenName (c # cs) =
     (if isDigit c then CHR ''-'' # c # cs
      else case toLowerCase c of
             Some l \<Rightarrow> CHR ''-'' # l # formatTokenName cs
           | None \<Rightarrow> c # formatTokenName cs)"

subsection \<open>Observations of a run\<close>

text \<open>The calls to the formatter and the file writes among a list of events.\<close>

definition formatterAndWrites :: "event list \<Rightarrow> event list" where
  "formatterAndWrites evs =
     filter (\<lambda>ev. case ev of Format body \<Rightarrow> True | WriteFile path content \<Rightarrow> True | _ \<Rightarrow> False) evs"

text \<open>The events that a run from \<open>w\<close> to \<open>w'\<close> has added.\<close>

definition eventsOfRun :: "world \<Rightarrow> world \<Rightarrow> event list" where
  "eventsOfRun w w' = drop (length (trace w)) (trace w')"

subsection \<open>The end-to-end scenario of the spec (section 8), as concrete input\<close>

definition scenarioTokens :: "string list" where
  "scenarioTokens = [''interactive01'']"

definition scenarioThemes :: themes where
  "scenarioThemes =
     [(''white'', [(''interactive01'', ''#ff0000'')]),
      (''g90'', [(''interactive01'', ''#0000ff'')])]"

text \<open>
  Documents are written with their store: the entries of the sequence, in order, are
  the objects at 0, 1, ... and a role array stands at the reference its entry names.
\<close>

definition scenarioMetadata :: metadata where
  "scenarioMetadata =
     \<lparr>tokens = Some [0],
      objects = (objects emptyMetadata)
        (0 := \<lparr>name = ''interactive01'', role = Some 0, alias = None, deprecated = None\<rparr>),
      arrays = (arrays emptyMetadata)(0 := [''supports interactive01 state''])\<rparr>"

text \<open>A second metadata document, with a role that names another token and an alias.\<close>

definition exampleMetadata :: metadata where
  "exampleMetadata =
     \<lparr>tokens = Some [0, 1],
      objects = (objects emptyMetadata)
        (0 := \<lparr>name = ''interactive01'', role = Some 0, alias = Some ''brand01'', deprecated = Some True\<rparr>,
         1 := \<lparr>name = ''ui01'', role = None, alias = None, deprecated = None\<rparr>),
      arrays = (arrays emptyMetadata)(0 := [''see interactive01'', ''over ui01''])\<rparr>"

text \<open>
  A document with sharing, as the loader builds it from an anchor and an alias node:
  both entries hold the role array at 0.
\<close>

definition sharedMetadata :: metadata where
  "sharedMetadata =
     \<lparr>tokens = Some [0, 1],
      objects = (objects emptyMetadata)
        (0 := \<lparr>name = ''focus'', role = Some 0, alias = None, deprecated = None\<rparr>,
         1 := \<lparr>name = ''ui01'', role = Some 0, alias = None, deprecated = None\<rparr>),
      arrays = (arrays emptyMetadata)(0 := [''focus ring''])\<rparr>"

definition emptyWorld :: world where
  "emptyWorld = \<lparr>files = Map.empty, trace = []\<rparr>"

text \<open>Stand-ins for the formatter: one that rejects every body, one that rejects a given body.\<close>

definition rejectAll :: "string \<Rightarrow> error + string" where
  "rejectAll body = Inl FormatError"

definition rejectOnly :: "string \<Rightarrow> string \<Rightarrow> error + string" where
  "rejectOnly bad body = (if body = bad then Inl FormatError else Inr body)"

subsection \<open>Reading a body line by line\<close>

text \<open>\<open>body.split('\n')\<close>, and the lines of a body that begin with a given text.\<close>

fun splitLines :: "string \<Rightarrow> string list" where
  "splitLines [] = [[]]"
| "splitLines (c # cs) =
     (if c = CHR ''\<newline>'' then [] # splitLines cs
      else case splitLines cs of [] \<Rightarrow> [[c]] | l # ls \<Rightarrow> (c # l) # ls)"

definition linesStarting :: "string \<Rightarrow> string \<Rightarrow> string list" where
  "linesStarting p body = filter (prefix p) (splitLines body)"

text \<open>A text without line break.\<close>

definition oneLine :: "string \<Rightarrow> bool" where
  "oneLine s = (CHR ''\<newline>'' \<notin> set s)"

text \<open>
  The three bodies once more, as lists of lines; the lemmas below show that these are
  the lines of the bodies defined above. They serve the proofs only.
\<close>

definition unlines :: "string list \<Rightarrow> string" where
  "unlines ls = concat (map (\<lambda>l. l @ ''\<newline>'') ls)"

definition headerLines :: "string list" where
  "headerLines =
     [''// Code generated by @carbon/themes. DO NOT EDIT.'',
      ''//'',
      ''// Copyright IBM Corp. 2018, 2018'',
      ''//'',
      ''// This source code is licensed under the Apache-2.0 license found in the'',
      ''// LICENSE file in the root directory of this source tree.'',
      ''//'']"

definition tokenBlockLines ::
  "(string \<Rightarrow> string) \<Rightarrow> (ref \<Rightarrow> string list) \<Rightarrow> tokenMeta option \<Rightarrow> string \<Rightarrow> string list" where
  "tokenBlockLines fmt arr td token =
     [[], []] @
     (case (case td of None \<Rightarrow> None | Some t \<Rightarrow> role t) of
        Some a \<Rightarrow> [''/// '' @ join ''; '' (arr a)] | None \<Rightarrow> []) @
     [''/// @type Color'', ''/// @access public'', ''/// @group @carbon/themes''] @
     (case (case td of None \<Rightarrow> None | Some t \<Rightarrow> alias t) of
        Some a \<Rightarrow> if a \<noteq> [] then [''/// @alias '' @ a] else [] | None \<Rightarrow> []) @
     (case (case td of None \<Rightarrow> None | Some t \<Rightarrow> deprecated t) of
        Some d \<Rightarrow> if d then [''/// @deprecated''] else [] | None \<Rightarrow> []) @
     [''$'' @ fmt token @ '': map-get($carbon--theme, '' @ fmt token @ '') !default;'']"

definition themeMapLines :: "(string \<Rightarrow> string) \<Rightarrow> string \<times> theme \<Rightarrow> string list" where
  "themeMapLines fmt entry =
     (case entry of (nm, theme) \<Rightarrow>
        [''/// Carbon's '' @ nm @ '' color theme'',
         ''/// @type Map'',
         ''/// @access public'',
         ''/// @group @carbon/themes'',
         ''$carbon--theme--'' @ nm @ '': (''] @
        map (\<lambda>(key, val). ''  '' @ fmt key @ '': '' @ val @ '','') theme @
        ['') !default;''])"

fun joinBlocks :: "string list list \<Rightarrow> string list" where
  "joinBlocks [] = []"
| "joinBlocks [ls] = ls"
| "joinBlocks (ls # ls' # lss) = ls @ [[]] @ joinBlocks (ls' # lss)"

definition themeMixinLines :: "(string \<Rightarrow> string) \<Rightarrow> string list \<Rightarrow> string list" where
  "themeMixinLines fmt tokenColors =
     [''/// Define theme variables from a map of tokens'',
      ''/// @access public'',
      ''/// @param {Map} $theme [$carbon--theme] - Map of theme tokens'',
      ''/// @content Pass in your custom declaration blocks to be used after the token maps set theming variables.'',
      ''///'',
      ''/// @example scss'',
      ''///   // Default usage'',
      ''///   @include carbon--theme();'',
      ''///'',
      ''///   // Alternate styling (not white theme)'',
      ''///   @include carbon--theme($carbon--theme--g90) {'',
      ''///     // declarations...'',
      ''///   }'',
      ''///'',
      ''///   // Inline styling'',
      ''///   @include carbon--theme($carbon--theme--g90) {'',
      ''///     .my-dark-theme {'',
      ''///       // declarations...'',
      ''///     }'',
      ''///   }'',
      ''///'',
      ''/// @group @carbon/themes'',
      ''@mixin carbon--theme($theme: $carbon--theme) {''] @
     map (\<lambda>token. ''    $'' @ fmt token @ '': map-get($theme, '' @ fmt token @ '') !global;'') tokenColors @
     [[],
      ''  @content;'',
      [],
      ''  // Reset to default theme after apply in content'',
      ''  @if $theme != $carbon--theme {'',
      ''    @include carbon--theme;'',
      ''  }'']"

subsection \<open>Notions for stating idempotence\<close>

text \<open>No alternative matches at any position of the string, the end included.\<close>

fun noMatch :: "string list \<Rightarrow> string \<Rightarrow> bool" where
  "noMatch alts [] = (execAt alts [] = None)"
| "noMatch alts (c # cs) = (execAt alts (c # cs) = None \<and> noMatch alts cs)"

text \<open>What the replacement function returns for a match that is a known name.\<close>

definition wrapped :: "(string \<Rightarrow> string) \<Rightarrow> string \<Rightarrow> string" where
  "wrapped fmt m = ''`$'' @ fmt m @ ''`''"

text \<open>A document on which the second pass changes nothing.\<close>

definition apartMetadata :: metadata where
  "apartMetadata =
     \<lparr>tokens = Some [0, 1],
      objects = (objects emptyMetadata)
        (0 := \<lparr>name = ''interactive01'', role = Some 0, alias = None, deprecated = None\<rparr>,
         1 := \<lparr>name = ''ui01'', role = None, alias = Some ''background'', deprecated = None\<rparr>),
      arrays = (arrays emptyMetadata)(0 := [''see ui01''])\<rparr>"

subsection \<open>Notions for stating the effect of the pass on a store\<close>

text \<open>What the pass assigns to an alias that is present: an empty alias is falsy and stays.\<close>

definition formatAlias :: "(string \<Rightarrow> string) \<Rightarrow> string \<Rightarrow> string" where
  "formatAlias fmt al = (if al \<noteq> [] then fmt al else al)"

text \<open>
  The number of entries of the sequence that hold the array at \<open>a\<close> as their role:
  the pass visits the array once for each of them.
\<close>

definition holders :: "metadata \<Rightarrow> ref list \<Rightarrow> ref \<Rightarrow> nat" where
  "holders md rs a = count_list (map (\<lambda>r. role (objects md r)) rs) (Some a)"

subsection \<open>Further documents\<close>

text \<open>A document whose only entry mentions, in its role, a name that is not a colour token.\<close>

definition seeFocusMetadata :: metadata where
  "seeFocusMetadata =
     \<lparr>tokens = Some [0],
      objects = (objects emptyMetadata)
        (0 := \<lparr>name = ''interactive01'', role = Some 0, alias = None, deprecated = None\<rparr>),
      arrays = (arrays emptyMetadata)(0 := [''see focus''])\<rparr>"

text \<open>Two entries of that name: a bare one, and one with a role, an alias and the flag.\<close>

definition plainFocus :: tokenMeta where
  "plainFocus = \<lparr>name = ''focus'', role = None, alias = None, deprecated = None\<rparr>"

definition richFocus :: tokenMeta where
  "richFocus = \<lparr>name = ''focus'', role = Some 1, alias = Some ''brand01'', deprecated = Some True\<rparr>"

text \<open>A single token whose formatted name is its name, and whose role is its name.\<close>

definition focusMetadata :: metadata where
  "focusMetadata =
     \<lparr>tokens = Some [0],
      objects = (objects emptyMetadata)
        (0 := \<lparr>name = ''focus'', role = Some 0, alias = None, deprecated = None\<rparr>),
      arrays = (arrays emptyMetadata)(0 := [''focus''])\<rparr>"

section \<open>Properties\<close>

subsection \<open>Loops as concatenations\<close>

lemma fold_append_concat:
  "fold (\<lambda>x acc. acc @ g x) xs a = a @ concat (map g xs)"
  by (induction xs arbitrary: a) simp_all

subsection \<open>The run, case by case\<close>

lemma build_unfold:
  assumes "loadMetadata fmt loaded (emit (Info ''Building scss files for themes...'') w) = (md, w2)"
  shows "build fmt prettier ths tc loaded w =
    (case prettier (tokensFile fmt tc md) of
       Inl e \<Rightarrow>
         (Inl e, w2\<lparr>trace := trace w2 @ [EnsureDir SCSS_DIR, Format (tokensFile fmt tc md)]\<rparr>)
     | Inr out1 \<Rightarrow>
        (case prettier (mixinsFile fmt tc) of
           Inl e \<Rightarrow>
             (Inl e, w2\<lparr>files := (files w2)(TOKENS_ENTRYPOINT \<mapsto> out1),
                         trace := trace w2 @
                           [EnsureDir SCSS_DIR, Format (tokensFile fmt tc md),
                            WriteFile TOKENS_ENTRYPOINT out1, Format (mixinsFile fmt tc)]\<rparr>)
         | Inr out2 \<Rightarrow>
            (case prettier (themeMapsFile fmt ths) of
               Inl e \<Rightarrow>
                 (Inl e, w2\<lparr>files := (files w2)(TOKENS_ENTRYPOINT \<mapsto> out1, MIXINS_ENTRYPOINT \<mapsto> out2),
                             trace := trace w2 @
                               [EnsureDir SCSS_DIR, Format (tokensFile fmt tc md),
                                WriteFile TOKENS_ENTRYPOINT out1, Format (mixinsFile fmt tc),
                                WriteFile MIXINS_ENTRYPOINT out2, Format (themeMapsFile fmt ths)]\<rparr>)
             | Inr out3 \<Rightarrow>
                 (Inr (), w2\<lparr>files := (files w2)(TOKENS_ENTRYPOINT \<mapsto> out1, MIXINS_ENTRYPOINT \<mapsto> out2,
                                                  MAPS_ENTRYPOINT \<mapsto> out3),
                             trace := trace w2 @
                               [EnsureDir SCSS_DIR, Format (tokensFile fmt tc md),
                                WriteFile TOKENS_ENTRYPOINT out1, Format (mixinsFile fmt tc),
                                WriteFile MIXINS_ENTRYPOINT out2, Format (themeMapsFile fmt ths),
                                WriteFile MAPS_ENTRYPOINT out3,
                                Success (''Done! '' @ [CHR 0xF0, CHR 0x9F, CHR 0x8E, CHR 0x89])]\<rparr>))))"
  using assms
  by (simp add: build_def Let_def format_def emit_def writeFile_def split: sum.splits)

lemma loadMetadata_any:
  "\<exists>md evs. formatterAndWrites evs = [] \<and>
     (\<forall>w. loadMetadata fmt loaded w = (md, w\<lparr>trace := trace w @ evs\<rparr>))"
proof (cases loaded)
  case (Inl e)
  then show ?thesis
    by (intro exI[of _ emptyMetadata] exI[of _ "[ConsoleError e]"]) (simp add: loadMetadata_def emit_def formatterAndWrites_def)
next
  case doc: (Inr doc)
  show ?thesis
  proof (cases "transformMetadata fmt doc")
    case (Inl e)
    with doc show ?thesis
      by (intro exI[of _ emptyMetadata] exI[of _ "[ConsoleError e]"]) (simp add: loadMetadata_def emit_def formatterAndWrites_def)
  next
    case (Inr md)
    with doc show ?thesis
      by (intro exI[of _ md] exI[of _ "[]"]) (simp add: loadMetadata_def formatterAndWrites_def)
  qed
qed

lemma build_accepting: "fst (build fmt Inr ths tc loaded w) = Inr ()"
proof -
  obtain md evs where "\<And>v. loadMetadata fmt loaded v = (md, v\<lparr>trace := trace v @ evs\<rparr>)"
    using loadMetadata_any by blast
  then show ?thesis
    by (simp add: build_unfold)
qed

subsection \<open>Reproducibility\<close>

text \<open>
  C1: two runs on the same token list, themes and metadata document, from any two
  worlds, have the same outcome and make the same calls with the same texts, in
  particular the same writes; when the run completes, the three files hold the same
  text after both. (The formatter and the name formatter are functions of their input.)
\<close>

theorem build_deterministic:
  "fst (build fmt prettier ths tokenColors loaded w) = fst (build fmt prettier ths tokenColors loaded w') \<and>
   eventsOfRun w (snd (build fmt prettier ths tokenColors loaded w)) =
     eventsOfRun w' (snd (build fmt prettier ths tokenColors loaded w')) \<and>
   (fst (build fmt prettier ths tokenColors loaded w) = Inr () \<longrightarrow>
      files (snd (build fmt prettier ths tokenColors loaded w)) TOKENS_ENTRYPOINT =
        files (snd (build fmt prettier ths tokenColors loaded w')) TOKENS_ENTRYPOINT \<and>
      files (snd (build fmt prettier ths tokenColors loaded w)) MIXINS_ENTRYPOINT =
        files (snd (build fmt prettier ths tokenColors loaded w')) MIXINS_ENTRYPOINT \<and>
      files (snd (build fmt prettier ths tokenColors loaded w)) MAPS_ENTRYPOINT =
        files (snd (build fmt prettier ths tokenColors loaded w')) MAPS_ENTRYPOINT)"
proof -
  obtain md evs where L: "\<And>v. loadMetadata fmt loaded v = (md, v\<lparr>trace := trace v @ evs\<rparr>)"
    using loadMetadata_any by blast
  note B = build_unfold[OF L, of prettier ths tokenColors]
  show ?thesis
  proof (cases "prettier (tokensFile fmt tokenColors md)")
    case Inl
    then show ?thesis
      by (simp add: B eventsOfRun_def emit_def)
  next
    case out1: (Inr out1)
    show ?thesis
    proof (cases "prettier (mixinsFile fmt tokenColors)")
      case Inl
      with out1 show ?thesis
        by (simp add: B eventsOfRun_def emit_def)
    next
      case out2: (Inr out2)
      show ?thesis
      proof (cases "prettier (themeMapsFile fmt ths)")
        case Inl
        with out1 out2 show ?thesis
          by (simp add: B eventsOfRun_def emit_def)
      next
        case (Inr out3)
        with out1 out2 show ?thesis
          by (simp add: B eventsOfRun_def emit_def)
      qed
    qed
  qed
qed

theorem build_deterministic_witness:
  "fst (build formatTokenName Inr scenarioThemes scenarioTokens (Inr scenarioMetadata) emptyWorld) = Inr () \<and>
   files (snd (build formatTokenName Inr scenarioThemes scenarioTokens (Inr scenarioMetadata) emptyWorld))
     TOKENS_ENTRYPOINT =
   files (snd (build formatTokenName Inr scenarioThemes scenarioTokens (Inr scenarioMetadata)
     (snd (build formatTokenName Inr scenarioThemes scenarioTokens (Inr scenarioMetadata) emptyWorld))))
     TOKENS_ENTRYPOINT \<and>
   files (snd (build formatTokenName Inr scenarioThemes scenarioTokens (Inr scenarioMetadata) emptyWorld))
     MIXINS_ENTRYPOINT =
   files (snd (build formatTokenName Inr scenarioThemes scenarioTokens (Inr scenarioMetadata)
     (snd (build formatTokenName Inr scenarioThemes scenarioTokens (Inr scenarioMetadata) emptyWorld))))
     MIXINS_ENTRYPOINT \<and>
   files (snd (build formatTokenName Inr scenarioThemes scenarioTokens (Inr scenarioMetadata) emptyWorld))
     MAPS_ENTRYPOINT =
   files (snd (build formatTokenName Inr scenarioThemes scenarioTokens (Inr scenarioMetadata)
     (snd (build formatTokenName Inr scenarioThemes scenarioTokens (Inr scenarioMetadata) emptyWorld))))
     MAPS_ENTRYPOINT"
proof -
  have completes:
    "fst (build formatTokenName Inr scenarioThemes scenarioTokens (Inr scenarioMetadata) emptyWorld) = Inr ()"
    by (rule build_accepting)
  with build_deterministic[of formatTokenName Inr scenarioThemes scenarioTokens "Inr scenarioMetadata"
      emptyWorld
      "snd (build formatTokenName Inr scenarioThemes scenarioTokens (Inr scenarioMetadata) emptyWorld)"]
  show ?thesis
    by blast
qed

subsection \<open>The three bodies\<close>

lemma tokenDoc_None:
  "tokenDoc arr None = ''\<newline>\<newline>/// @type Color\<newline>/// @access public\<newline>/// @group @carbon/themes''"
  by (simp add: tokenDoc_def)

lemma find_Some_set: "find P xs = Some x \<Longrightarrow> x \<in> set xs \<and> P x"
  by (induction xs) (auto split: if_splits)

lemma tokenData_None:
  "(\<forall>rs. tokens md = Some rs \<longrightarrow> token \<notin> (\<lambda>r. name (objects md r)) ` set rs) \<Longrightarrow>
   tokenData md token = None"
  by (auto simp: tokenData_def split: option.splits dest: find_Some_set)

lemma themeMap_lines:
  "themeMap fmt (nm, theme) =
     ''/// Carbon's '' @ nm @ '' color theme\<newline>'' @
     ''/// @type Map\<newline>'' @
     ''/// @access public\<newline>'' @
     ''/// @group @carbon/themes\<newline>'' @
     ''$carbon--theme--'' @ nm @ '': (\<newline>'' @
     concat (map (\<lambda>(key, val). ''  '' @ fmt key @ '': '' @ val @ '',\<newline>'') theme) @
     '') !default;\<newline>''"
proof -
  have "(\<lambda>(key, val) scssMap. scssMap @ ''  '' @ fmt key @ '': '' @ val @ '','' @ ''\<newline>'')
        = (\<lambda>x acc. acc @ (case x of (key, val) \<Rightarrow> ''  '' @ fmt key @ '': '' @ val @ '',\<newline>''))"
    by (auto simp: fun_eq_iff)
  then show ?thesis
    by (simp add: themeMap_def fold_append_concat)
qed

subsection \<open>The bodies as lists of lines\<close>

lemma splitLines_oneLine: "oneLine l \<Longrightarrow> splitLines l = [l]"
  by (induction l) (auto simp: oneLine_def)

lemma splitLines_line: "oneLine l \<Longrightarrow> splitLines (l @ CHR ''\<newline>'' # rest) = l # splitLines rest"
  by (induction l) (auto simp: oneLine_def)

lemma unlines_simps:
  "unlines [] = []"
  "unlines (l # ls) = l @ CHR ''\<newline>'' # unlines ls"
  "unlines (ls @ ls') = unlines ls @ unlines ls'"
  by (simp_all add: unlines_def)

lemma unlines_concat: "unlines (concat lss) = concat (map unlines lss)"
  by (induction lss) (simp_all add: unlines_simps)

lemma splitLines_unlines:
  "\<forall>l \<in> set ls. oneLine l \<Longrightarrow> oneLine e \<Longrightarrow> splitLines (unlines ls @ e) = ls @ [e]"
  by (induction ls) (simp_all add: unlines_simps splitLines_oneLine splitLines_line)

lemma linesStarting_unlines:
  "\<forall>l \<in> set ls. oneLine l \<Longrightarrow> oneLine e \<Longrightarrow>
   linesStarting p (unlines ls @ e) = filter (prefix p) ls @ filter (prefix p) [e]"
  by (simp add: linesStarting_def splitLines_unlines)

lemma oneLine_join: "\<forall>r \<in> set rs. oneLine r \<Longrightarrow> oneLine sep \<Longrightarrow> oneLine (join sep rs)"
  by (induction sep rs rule: join.induct) (simp_all add: oneLine_def)

lemma FILE_BANNER_lines: "FILE_BANNER = unlines headerLines"
  by (simp add: FILE_BANNER_def headerLines_def unlines_simps)

lemma headerLines_oneLine: "\<forall>l \<in> set headerLines. oneLine l"
  by (simp add: headerLines_def oneLine_def)

lemma headerLines_plain: "filter (prefix ''$'') headerLines = []"
  by (simp add: headerLines_def)

lemma tokenBlock_unlines:
  "tokenDoc arr td @ ''\<newline>$'' @ fmt token @ '': map-get('' @ defaultThemeMapName @ '', '' @ fmt token @
     '') !default;\<newline>'' = unlines (tokenBlockLines fmt arr td token)"
  by (simp add: tokenDoc_def tokenBlockLines_def unlines_simps defaultThemeMapName_def
        split: option.splits)

lemma tokenBlock_declaration:
  "filter (prefix ''$'') (tokenBlockLines fmt arr td token) =
     [''$'' @ fmt token @ '': map-get($carbon--theme, '' @ fmt token @ '') !default;'']"
  by (simp add: tokenBlockLines_def split: option.splits)

lemma tokenBlock_oneLine:
  assumes "oneLine (fmt token)"
    and "\<And>t a r. td = Some t \<Longrightarrow> role t = Some a \<Longrightarrow> r \<in> set (arr a) \<Longrightarrow> oneLine r"
    and "\<And>t al. td = Some t \<Longrightarrow> alias t = Some al \<Longrightarrow> oneLine al"
  shows "\<forall>l \<in> set (tokenBlockLines fmt arr td token). oneLine l"
proof -
  have "oneLine (join ''; '' (arr a))" if "td = Some t" and "role t = Some a" for t a
    using assms(2)[OF that] by (intro oneLine_join) (simp_all add: oneLine_def)
  moreover have "oneLine (''/// '' @ x) = oneLine x" "oneLine (''/// @alias '' @ x) = oneLine x" for x
    by (simp_all add: oneLine_def)
  moreover have "oneLine (''$'' @ fmt token @ '': map-get($carbon--theme, '' @ fmt token @ '') !default;'')"
    using assms(1) by (simp add: oneLine_def)
  moreover have "oneLine []" "oneLine ''/// @type Color''" "oneLine ''/// @access public''"
     "oneLine ''/// @group @carbon/themes''" "oneLine ''/// @deprecated''"
    by (simp_all add: oneLine_def)
  ultimately show ?thesis
    using assms(3) unfolding tokenBlockLines_def
    by (auto split: option.splits)
qed

lemma tokensFile_unlines:
  "tokensFile fmt tokenColors md =
     unlines (headerLines @ [[], ''@import './theme-maps';'', []] @
              concat (map (\<lambda>token. tokenBlockLines fmt (arrays md) (tokenData md token) token) tokenColors))"
proof -
  have hdr: "FILE_BANNER @ ''\<newline>'' @ ''@import './theme-maps';\<newline>\<newline>'' =
        unlines (headerLines @ [[], ''@import './theme-maps';'', []])"
    by (simp add: FILE_BANNER_lines unlines_simps)
  show ?thesis
    unfolding tokensFile_def fold_append_concat tokenBlock_unlines hdr
    by (simp only: unlines_simps(3) unlines_concat map_map o_def append_assoc)
qed

lemma tokensFile_declaration_lines:
  assumes "\<forall>token \<in> set tokenColors. oneLine (fmt token)"
    and "\<forall>token \<in> set tokenColors. \<forall>t. tokenData md token = Some t \<longrightarrow>
           (\<forall>a. role t = Some a \<longrightarrow> (\<forall>r \<in> set (arrays md a). oneLine r)) \<and>
           (\<forall>al. alias t = Some al \<longrightarrow> oneLine al)"
  shows "linesStarting ''$'' (tokensFile fmt tokenColors md) =
     map (\<lambda>token. ''$'' @ fmt token @ '': map-get($carbon--theme, '' @ fmt token @ '') !default;'')
       tokenColors"
proof -
  let ?blocks = "map (\<lambda>token. tokenBlockLines fmt (arrays md) (tokenData md token) token) tokenColors"
  let ?ls = "headerLines @ [[], ''@import './theme-maps';'', []] @ concat ?blocks"
  have "\<forall>l \<in> set (tokenBlockLines fmt (arrays md) (tokenData md token) token). oneLine l"
    if "token \<in> set tokenColors" for token
    using assms that by (intro tokenBlock_oneLine) blast+
  then have one: "\<forall>l \<in> set ?ls. oneLine l"
    using headerLines_oneLine by (auto simp: oneLine_def)
  have "tokensFile fmt tokenColors md = unlines ?ls @ []"
    by (simp add: tokensFile_unlines)
  then have "linesStarting ''$'' (tokensFile fmt tokenColors md) = filter (prefix ''$'') ?ls"
    using linesStarting_unlines[OF one, of "[]" "''$''"] by (simp add: oneLine_def)
  also have "\<dots> = concat (map (filter (prefix ''$'')) ?blocks)"
    by (simp add: headerLines_plain filter_concat)
  also have "\<dots> = map (\<lambda>token. ''$'' @ fmt token @ '': map-get($carbon--theme, '' @ fmt token @ '') !default;'')
       tokenColors"
    by (simp add: o_def tokenBlock_declaration)
  finally show ?thesis .
qed

lemma themeMap_unlines: "themeMap fmt entry = unlines (themeMapLines fmt entry)"
proof (cases entry)
  case (Pair nm theme)
  have "concat (map (\<lambda>(key, val). ''  '' @ fmt key @ '': '' @ val @ '',\<newline>'') theme) =
        unlines (map (\<lambda>(key, val). ''  '' @ fmt key @ '': '' @ val @ '','') theme)"
    by (induction theme) (auto simp: unlines_simps)
  with Pair show ?thesis
    by (simp add: themeMap_lines themeMapLines_def unlines_simps)
qed

lemma join_unlines: "join ''\<newline>'' (map unlines lss) = unlines (joinBlocks lss)"
  by (induction lss rule: joinBlocks.induct) (simp_all add: unlines_simps)

lemma filter_joinBlocks:
  "\<not> P [] \<Longrightarrow> filter P (joinBlocks lss) = concat (map (filter P) lss)"
  by (induction lss rule: joinBlocks.induct) simp_all

lemma set_joinBlocks: "set (joinBlocks lss) \<subseteq> insert [] (\<Union> (set ` set lss))"
  by (induction lss rule: joinBlocks.induct) auto

lemma themeMapLines_oneLine:
  assumes "oneLine nm" and "\<forall>(key, val) \<in> set theme. oneLine (fmt key) \<and> oneLine val"
  shows "\<forall>l \<in> set (themeMapLines fmt (nm, theme)). oneLine l"
  using assms by (auto simp: themeMapLines_def oneLine_def)

lemma themeMapLines_declaration:
  "filter (prefix ''$'') (themeMapLines fmt entry) =
     [case entry of (nm, theme) \<Rightarrow> ''$carbon--theme--'' @ nm @ '': ('']"
  by (cases entry) (simp add: themeMapLines_def filter_map o_def split_beta)

lemma themeMapLines_tokens:
  "filter (prefix ''  '') (themeMapLines fmt entry) =
     (case entry of (nm, theme) \<Rightarrow> map (\<lambda>(key, val). ''  '' @ fmt key @ '': '' @ val @ '','') theme)"
  by (cases entry) (simp add: themeMapLines_def filter_map o_def split_beta)

lemma themeMapsFile_unlines:
  "themeMapsFile fmt ths =
     unlines (headerLines @ [[]] @ joinBlocks (map (themeMapLines fmt) ths) @
       [[], [],
        ''/// Carbon's default theme'',
        ''/// @type Map'',
        ''/// @access public'',
        ''/// @alias carbon--theme--white'',
        ''/// @group @carbon/themes'',
        ''$carbon--theme: $carbon--theme--white !default;''])"
proof -
  have "themeMap fmt = (\<lambda>entry. unlines (themeMapLines fmt entry))"
    by (rule ext) (rule themeMap_unlines)
  then have "themeMaps fmt ths = unlines (joinBlocks (map (themeMapLines fmt) ths))"
    using join_unlines[of "map (themeMapLines fmt) ths"]
    by (simp add: themeMaps_def o_def)
  then show ?thesis
    by (simp add: themeMapsFile_def FILE_BANNER_lines unlines_simps defaultTheme_def defaultThemeMapName_def)
qed

lemma themeMapsFile_lines:
  assumes "\<forall>(nm, theme) \<in> set ths.
             oneLine nm \<and> (\<forall>(key, val) \<in> set theme. oneLine (fmt key) \<and> oneLine val)"
  shows "linesStarting ''$'' (themeMapsFile fmt ths) =
           map (\<lambda>(nm, theme). ''$carbon--theme--'' @ nm @ '': ('') ths @
           [''$carbon--theme: $carbon--theme--white !default;'']"
    and "linesStarting ''  '' (themeMapsFile fmt ths) =
           concat (map (\<lambda>(nm, theme). map (\<lambda>(key, val). ''  '' @ fmt key @ '': '' @ val @ '','') theme) ths)"
proof -
  let ?tail = "[[], [],
        ''/// Carbon's default theme'',
        ''/// @type Map'',
        ''/// @access public'',
        ''/// @alias carbon--theme--white'',
        ''/// @group @carbon/themes'',
        ''$carbon--theme: $carbon--theme--white !default;'']"
  let ?ls = "headerLines @ [[]] @ joinBlocks (map (themeMapLines fmt) ths) @ ?tail"
  have "\<forall>l \<in> set (themeMapLines fmt entry). oneLine l" if "entry \<in> set ths" for entry
    using assms that themeMapLines_oneLine[of "fst entry" "snd entry" fmt] by (cases entry) auto
  then have "\<forall>l \<in> set (joinBlocks (map (themeMapLines fmt) ths)). oneLine l"
    using set_joinBlocks[of "map (themeMapLines fmt) ths"] by (auto simp: oneLine_def)
  then have one: "\<forall>l \<in> set ?ls. oneLine l"
    using headerLines_oneLine by (auto simp: oneLine_def)
  have body: "themeMapsFile fmt ths = unlines ?ls @ []"
    by (simp add: themeMapsFile_unlines)
  have split: "linesStarting p (themeMapsFile fmt ths) = filter (prefix p) ?ls" if "p \<noteq> []" for p
    using linesStarting_unlines[OF one, of "[]" p] that by (simp add: body oneLine_def)
  have "filter (prefix ''$'') (joinBlocks (map (themeMapLines fmt) ths)) =
        map (\<lambda>(nm, theme). ''$carbon--theme--'' @ nm @ '': ('') ths"
    by (simp add: filter_joinBlocks o_def themeMapLines_declaration)
  then show "linesStarting ''$'' (themeMapsFile fmt ths) =
           map (\<lambda>(nm, theme). ''$carbon--theme--'' @ nm @ '': ('') ths @
           [''$carbon--theme: $carbon--theme--white !default;'']"
    by (simp add: split headerLines_plain)
  have "filter (prefix ''  '') headerLines = []"
    by (simp add: headerLines_def)
  moreover have "filter (prefix ''  '') (joinBlocks (map (themeMapLines fmt) ths)) =
        concat (map (\<lambda>(nm, theme). map (\<lambda>(key, val). ''  '' @ fmt key @ '': '' @ val @ '','') theme) ths)"
    by (simp add: filter_joinBlocks o_def themeMapLines_tokens)
  ultimately show "linesStarting ''  '' (themeMapsFile fmt ths) =
           concat (map (\<lambda>(nm, theme). map (\<lambda>(key, val). ''  '' @ fmt key @ '': '' @ val @ '','') theme) ths)"
    by (simp add: split)
qed

lemma themeMixin_unlines: "themeMixin fmt tokenColors = unlines (themeMixinLines fmt tokenColors) @ ''}''"
proof -
  have "concat (map (\<lambda>token. ''    $'' @ fmt token @ '': map-get($theme, '' @ fmt token @ '') !global;\<newline>'')
          tokenColors) =
        unlines (map (\<lambda>token. ''    $'' @ fmt token @ '': map-get($theme, '' @ fmt token @ '') !global;'')
          tokenColors)"
    by (induction tokenColors) (simp_all add: unlines_simps)
  then show ?thesis
    unfolding themeMixin_def themeMixinHead_def fold_append_concat
    by (simp add: themeMixinDoc_def themeMixinLines_def unlines_simps defaultThemeMapName_def)
qed

lemma themeMixinLines_oneLine:
  "\<forall>token \<in> set tokenColors. oneLine (fmt token) \<Longrightarrow>
   \<forall>l \<in> set (themeMixinLines fmt tokenColors). oneLine l"
  by (auto simp: themeMixinLines_def oneLine_def)

lemma themeMixin_lines:
  assumes "\<forall>token \<in> set tokenColors. oneLine (fmt token)"
  shows "linesStarting ''@mixin'' (themeMixin fmt tokenColors) =
           [''@mixin carbon--theme($theme: $carbon--theme) {'']"
    and "linesStarting ''    $'' (themeMixin fmt tokenColors) =
           map (\<lambda>token. ''    $'' @ fmt token @ '': map-get($theme, '' @ fmt token @ '') !global;'')
             tokenColors"
proof -
  have split: "linesStarting p (themeMixin fmt tokenColors) =
      filter (prefix p) (themeMixinLines fmt tokenColors) @ filter (prefix p) [''}'']" for p
    using linesStarting_unlines[OF themeMixinLines_oneLine[OF assms], of "''}''" p]
    by (simp add: themeMixin_unlines oneLine_def)
  show "linesStarting ''@mixin'' (themeMixin fmt tokenColors) =
           [''@mixin carbon--theme($theme: $carbon--theme) {'']"
    by (simp add: split themeMixinLines_def filter_map o_def)
  show "linesStarting ''    $'' (themeMixin fmt tokenColors) =
           map (\<lambda>token. ''    $'' @ fmt token @ '': map-get($theme, '' @ fmt token @ '') !global;'')
             tokenColors"
    by (simp add: split themeMixinLines_def filter_map o_def)
qed

subsection \<open>What the bodies contain\<close>

text \<open>
  C2: the token-declarations body is the banner and the import, then one block per
  colour token in list order, whatever the metadata: the documentation comment of the
  token followed by the line \<open>$public-name: map-get($carbon--theme, public-name) !default;\<close>.
  For a token without metadata entry the comment is the fixed type, access and group
  block alone. Read line by line, when the formatted names and the role and alias
  texts that are emitted have no line break, the lines of the body that begin with
  \<open>$\<close> are exactly these declaration lines, one per token, in list order.
\<close>

theorem tokensFile_structure:
  "tokensFile fmt tokenColors md =
     FILE_BANNER @ ''\<newline>'' @
     ''@import './theme-maps';\<newline>\<newline>'' @
     concat (map (\<lambda>token.
                    tokenDoc (arrays md) (tokenData md token) @
                    ''\<newline>$'' @ fmt token @ '': map-get($carbon--theme, '' @ fmt token @ '') !default;\<newline>'')
               tokenColors) \<and>
   (\<forall>token. (\<forall>rs. tokens md = Some rs \<longrightarrow> token \<notin> (\<lambda>r. name (objects md r)) ` set rs) \<longrightarrow>
      tokenDoc (arrays md) (tokenData md token) =
        ''\<newline>\<newline>/// @type Color\<newline>/// @access public\<newline>/// @group @carbon/themes'') \<and>
   ((\<forall>token \<in> set tokenColors. oneLine (fmt token)) \<and>
    (\<forall>token \<in> set tokenColors. \<forall>t. tokenData md token = Some t \<longrightarrow>
       (\<forall>a. role t = Some a \<longrightarrow> (\<forall>r \<in> set (arrays md a). oneLine r)) \<and>
       (\<forall>al. alias t = Some al \<longrightarrow> oneLine al)) \<longrightarrow>
    linesStarting ''$'' (tokensFile fmt tokenColors md) =
      map (\<lambda>token. ''$'' @ fmt token @ '': map-get($carbon--theme, '' @ fmt token @ '') !default;'')
        tokenColors)"
proof (intro conjI impI)
  show "tokensFile fmt tokenColors md =
     FILE_BANNER @ ''\<newline>'' @
     ''@import './theme-maps';\<newline>\<newline>'' @
     concat (map (\<lambda>token.
                    tokenDoc (arrays md) (tokenData md token) @
                    ''\<newline>$'' @ fmt token @ '': map-get($carbon--theme, '' @ fmt token @ '') !default;\<newline>'')
               tokenColors)"
    unfolding tokensFile_def defaultThemeMapName_def fold_append_concat
    by (simp only: append_assoc append.simps)
next
  show "\<forall>token. (\<forall>rs. tokens md = Some rs \<longrightarrow> token \<notin> (\<lambda>r. name (objects md r)) ` set rs) \<longrightarrow>
      tokenDoc (arrays md) (tokenData md token) =
        ''\<newline>\<newline>/// @type Color\<newline>/// @access public\<newline>/// @group @carbon/themes''"
    using tokenData_None[of md] tokenDoc_None[of "arrays md"] by metis
next
  assume "(\<forall>token \<in> set tokenColors. oneLine (fmt token)) \<and>
    (\<forall>token \<in> set tokenColors. \<forall>t. tokenData md token = Some t \<longrightarrow>
       (\<forall>a. role t = Some a \<longrightarrow> (\<forall>r \<in> set (arrays md a). oneLine r)) \<and>
       (\<forall>al. alias t = Some al \<longrightarrow> oneLine al))"
  then show "linesStarting ''$'' (tokensFile fmt tokenColors md) =
      map (\<lambda>token. ''$'' @ fmt token @ '': map-get($carbon--theme, '' @ fmt token @ '') !default;'')
        tokenColors"
    by (intro tokensFile_declaration_lines) blast+
qed

theorem tokensFile_structure_witness:
  "tokenDoc (arrays exampleMetadata) (tokenData exampleMetadata ''focus'') =
     ''\<newline>\<newline>/// @type Color\<newline>/// @access public\<newline>/// @group @carbon/themes'' \<and>
   linesStarting ''$'' (tokensFile formatTokenName [''interactive01'', ''focus''] exampleMetadata) =
     [''$interactive-01: map-get($carbon--theme, interactive-01) !default;'',
      ''$focus: map-get($carbon--theme, focus) !default;'']"
proof -
  note inst = tokensFile_structure[of formatTokenName "[''interactive01'', ''focus'']" exampleMetadata]
  have absent: "\<forall>rs. tokens exampleMetadata = Some rs \<longrightarrow>
      ''focus'' \<notin> (\<lambda>r. name (objects exampleMetadata r)) ` set rs"
    by (simp add: exampleMetadata_def)
  have names: "\<forall>token \<in> set [''interactive01'', ''focus'']. oneLine (formatTokenName token)"
    by (simp add: oneLine_def isDigit_def toLowerCase_def)
  have texts: "\<forall>token \<in> set [''interactive01'', ''focus'']. \<forall>t. tokenData exampleMetadata token = Some t \<longrightarrow>
       (\<forall>a. role t = Some a \<longrightarrow> (\<forall>r \<in> set (arrays exampleMetadata a). oneLine r)) \<and>
       (\<forall>al. alias t = Some al \<longrightarrow> oneLine al)"
    by (auto simp: tokenData_def exampleMetadata_def oneLine_def)
  from inst absent have "tokenDoc (arrays exampleMetadata) (tokenData exampleMetadata ''focus'') =
     ''\<newline>\<newline>/// @type Color\<newline>/// @access public\<newline>/// @group @carbon/themes''"
    by blast
  moreover from inst names texts
  have "linesStarting ''$'' (tokensFile formatTokenName [''interactive01'', ''focus''] exampleMetadata) =
      map (\<lambda>token. ''$'' @ formatTokenName token @ '': map-get($carbon--theme, '' @
                    formatTokenName token @ '') !default;'') [''interactive01'', ''focus'']"
    by blast
  ultimately show ?thesis
    by (simp add: isDigit_def toLowerCase_def)
qed

lemma themeMapsFile_blocks:
  "themeMapsFile fmt ths =
     FILE_BANNER @ ''\<newline>'' @
     join ''\<newline>''
       (map (\<lambda>(nm, theme).
          ''/// Carbon's '' @ nm @ '' color theme\<newline>'' @
          ''/// @type Map\<newline>'' @
          ''/// @access public\<newline>'' @
          ''/// @group @carbon/themes\<newline>'' @
          ''$carbon--theme--'' @ nm @ '': (\<newline>'' @
          concat (map (\<lambda>(key, val). ''  '' @ fmt key @ '': '' @ val @ '',\<newline>'') theme) @
          '') !default;\<newline>'') ths) @
     ''\<newline>\<newline>'' @
     ''/// Carbon's default theme\<newline>'' @
     ''/// @type Map\<newline>'' @
     ''/// @access public\<newline>'' @
     ''/// @alias carbon--theme--white\<newline>'' @
     ''/// @group @carbon/themes\<newline>'' @
     ''$carbon--theme: $carbon--theme--white !default;\<newline>''"
proof -
  have "map (themeMap fmt) ths = map (\<lambda>(nm, theme).
          ''/// Carbon's '' @ nm @ '' color theme\<newline>'' @
          ''/// @type Map\<newline>'' @
          ''/// @access public\<newline>'' @
          ''/// @group @carbon/themes\<newline>'' @
          ''$carbon--theme--'' @ nm @ '': (\<newline>'' @
          concat (map (\<lambda>(key, val). ''  '' @ fmt key @ '': '' @ val @ '',\<newline>'') theme) @
          '') !default;\<newline>'') ths"
    by (rule map_cong) (auto simp: themeMap_lines)
  then show ?thesis
    unfolding themeMapsFile_def themeMaps_def defaultTheme_def defaultThemeMapName_def
    by (simp only: append_assoc append.simps)
qed

text \<open>
  C3: the theme-maps body is the banner, then one map declaration per theme in the
  order of the collection, joined by blank lines, then the one declaration of the
  default map as an alias of the map of the default theme. Inside a map there is one
  line \<open>public-name: value,\<close> per key of that theme, in the theme's key order.
  Read line by line, when theme names, formatted names and values have no line break,
  the lines that begin with \<open>$\<close> are the openings of the maps, one per theme in
  collection order, followed by the single default alias, and the indented lines are
  the token lines of the themes in that order.
\<close>

theorem themeMapsFile_structure:
  "themeMapsFile fmt ths =
     FILE_BANNER @ ''\<newline>'' @
     join ''\<newline>''
       (map (\<lambda>(nm, theme).
          ''/// Carbon's '' @ nm @ '' color theme\<newline>'' @
          ''/// @type Map\<newline>'' @
          ''/// @access public\<newline>'' @
          ''/// @group @carbon/themes\<newline>'' @
          ''$carbon--theme--'' @ nm @ '': (\<newline>'' @
          concat (map (\<lambda>(key, val). ''  '' @ fmt key @ '': '' @ val @ '',\<newline>'') theme) @
          '') !default;\<newline>'') ths) @
     ''\<newline>\<newline>'' @
     ''/// Carbon's default theme\<newline>'' @
     ''/// @type Map\<newline>'' @
     ''/// @access public\<newline>'' @
     ''/// @alias carbon--theme--white\<newline>'' @
     ''/// @group @carbon/themes\<newline>'' @
     ''$carbon--theme: $carbon--theme--white !default;\<newline>'' \<and>
   ((\<forall>(nm, theme) \<in> set ths.
       oneLine nm \<and> (\<forall>(key, val) \<in> set theme. oneLine (fmt key) \<and> oneLine val)) \<longrightarrow>
    linesStarting ''$'' (themeMapsFile fmt ths) =
      map (\<lambda>(nm, theme). ''$carbon--theme--'' @ nm @ '': ('') ths @
      [''$carbon--theme: $carbon--theme--white !default;''] \<and>
    linesStarting ''  '' (themeMapsFile fmt ths) =
      concat (map (\<lambda>(nm, theme). map (\<lambda>(key, val). ''  '' @ fmt key @ '': '' @ val @ '','') theme) ths))"
  using themeMapsFile_blocks[of fmt ths] themeMapsFile_lines[of ths fmt]
  by blast

theorem themeMapsFile_structure_witness:
  "linesStarting ''$'' (themeMapsFile formatTokenName scenarioThemes) =
     [''$carbon--theme--white: ('', ''$carbon--theme--g90: ('',
      ''$carbon--theme: $carbon--theme--white !default;''] \<and>
   linesStarting ''  '' (themeMapsFile formatTokenName scenarioThemes) =
     [''  interactive-01: #ff0000,'', ''  interactive-01: #0000ff,'']"
proof -
  have plain: "\<forall>(nm, theme) \<in> set scenarioThemes.
       oneLine nm \<and> (\<forall>(key, val) \<in> set theme. oneLine (formatTokenName key) \<and> oneLine val)"
    by (simp add: scenarioThemes_def oneLine_def isDigit_def toLowerCase_def)
  with themeMapsFile_structure[of formatTokenName scenarioThemes]
  have "linesStarting ''$'' (themeMapsFile formatTokenName scenarioThemes) =
      map (\<lambda>(nm, theme). ''$carbon--theme--'' @ nm @ '': ('') scenarioThemes @
      [''$carbon--theme: $carbon--theme--white !default;''] \<and>
    linesStarting ''  '' (themeMapsFile formatTokenName scenarioThemes) =
      concat (map (\<lambda>(nm, theme). map (\<lambda>(key, val). ''  '' @ formatTokenName key @ '': '' @ val @ '','') theme)
        scenarioThemes)"
    by blast
  then show ?thesis
    by (simp add: scenarioThemes_def isDigit_def toLowerCase_def)
qed

lemma themeMixin_parts:
  "themeMixin fmt tokenColors =
     themeMixinDoc @
     ''@mixin carbon--theme($theme: $carbon--theme) {\<newline>'' @
     concat (map (\<lambda>token. ''    $'' @ fmt token @ '': map-get($theme, '' @ fmt token @ '') !global;\<newline>'')
               tokenColors) @
     ''\<newline>'' @
     ''  @content;\<newline>'' @
     ''\<newline>'' @
     ''  // Reset to default theme after apply in content\<newline>'' @
     ''  @if $theme != $carbon--theme {\<newline>'' @
     ''    @include carbon--theme;\<newline>'' @
     ''  }\<newline>'' @
     ''}''"
  unfolding themeMixin_def themeMixinHead_def defaultThemeMapName_def fold_append_concat
  by (simp only: append_assoc append.simps)

text \<open>
  C4: the mixin body is the comment block, the signature with the single parameter
  \<open>$theme\<close> defaulting to \<open>$carbon--theme\<close>, one global rebinding per colour token in
  list order, each looked up in \<open>$theme\<close>, then \<open>@content\<close>, then the re-invocation
  without argument under the test that \<open>$theme\<close> is not the default map. Read line by
  line, when the formatted names have no line break, there is one line that begins
  with \<open>@mixin\<close>, and the lines that rebind a variable are one per token, in list order.
\<close>

theorem themeMixin_structure:
  "themeMixin fmt tokenColors =
     themeMixinDoc @
     ''@mixin carbon--theme($theme: $carbon--theme) {\<newline>'' @
     concat (map (\<lambda>token. ''    $'' @ fmt token @ '': map-get($theme, '' @ fmt token @ '') !global;\<newline>'')
               tokenColors) @
     ''\<newline>'' @
     ''  @content;\<newline>'' @
     ''\<newline>'' @
     ''  // Reset to default theme after apply in content\<newline>'' @
     ''  @if $theme != $carbon--theme {\<newline>'' @
     ''    @include carbon--theme;\<newline>'' @
     ''  }\<newline>'' @
     ''}'' \<and>
   ((\<forall>token \<in> set tokenColors. oneLine (fmt token)) \<longrightarrow>
    linesStarting ''@mixin'' (themeMixin fmt tokenColors) =
      [''@mixin carbon--theme($theme: $carbon--theme) {''] \<and>
    linesStarting ''    $'' (themeMixin fmt tokenColors) =
      map (\<lambda>token. ''    $'' @ fmt token @ '': map-get($theme, '' @ fmt token @ '') !global;'')
        tokenColors)"
  using themeMixin_parts[of fmt tokenColors] themeMixin_lines[of tokenColors fmt]
  by blast

theorem themeMixin_structure_witness:
  "linesStarting ''@mixin'' (themeMixin formatTokenName scenarioTokens) =
     [''@mixin carbon--theme($theme: $carbon--theme) {''] \<and>
   linesStarting ''    $'' (themeMixin formatTokenName scenarioTokens) =
     [''    $interactive-01: map-get($theme, interactive-01) !global;'']"
proof -
  have plain: "\<forall>token \<in> set scenarioTokens. oneLine (formatTokenName token)"
    by (simp add: scenarioTokens_def oneLine_def isDigit_def toLowerCase_def)
  with themeMixin_structure[of formatTokenName scenarioTokens]
  have "linesStarting ''@mixin'' (themeMixin formatTokenName scenarioTokens) =
      [''@mixin carbon--theme($theme: $carbon--theme) {''] \<and>
    linesStarting ''    $'' (themeMixin formatTokenName scenarioTokens) =
      map (\<lambda>token. ''    $'' @ formatTokenName token @ '': map-get($theme, '' @ formatTokenName token @
                    '') !global;'') scenarioTokens"
    by blast
  then show ?thesis
    by (simp add: scenarioTokens_def isDigit_def toLowerCase_def)
qed

subsection \<open>The bodies are pairwise different\<close>

lemma themeMixin_starts: "\<exists>rest. themeMixin fmt tc = CHR ''/'' # rest"
  unfolding themeMixin_def themeMixinHead_def fold_append_concat
  by (simp add: themeMixinDoc_def)

lemma tokenDoc_starts: "\<exists>rest. tokenDoc arr td = CHR ''\<newline>'' # rest"
  by (simp add: tokenDoc_def split: option.splits)

lemma tokensFile_after_import:
  "\<exists>rest. tokensFile fmt tc md = FILE_BANNER @ ''\<newline>@import './theme-maps';\<newline>\<newline>'' @ rest \<and>
          (rest = [] \<or> hd rest = CHR ''\<newline>'')"
proof (cases tc)
  case Nil
  then show ?thesis
    by (simp add: tokensFile_def)
next
  case (Cons token tc')
  obtain r where "tokenDoc (arrays md) (tokenData md token) = CHR ''\<newline>'' # r"
    using tokenDoc_starts by blast
  with Cons show ?thesis
    unfolding tokensFile_def fold_append_concat
    by simp
qed

lemma themeMap_starts: "\<exists>rest. themeMap fmt entry = CHR ''/'' # rest"
  by (cases entry) (simp add: themeMap_lines)

lemma themeMaps_then_newlines:
  "\<exists>c rest. themeMaps fmt ths @ ''\<newline>\<newline>'' @ tail = c # rest \<and> c \<noteq> CHR ''@''"
proof (cases ths)
  case Nil
  then show ?thesis
    by (simp add: themeMaps_def)
next
  case (Cons entry ths')
  obtain r where "themeMap fmt entry = CHR ''/'' # r"
    using themeMap_starts by blast
  with Cons show ?thesis
    by (cases ths') (simp_all add: themeMaps_def)
qed

lemma themeMapsFile_starts:
  "\<exists>c rest. themeMapsFile fmt ths = FILE_BANNER @ ''\<newline>'' @ c # rest \<and> c \<noteq> CHR ''@''"
proof -
  obtain c rest where "themeMaps fmt ths @ ''\<newline>\<newline>'' @ 
     (''/// Carbon's default theme\<newline>'' @
     ''/// @type Map\<newline>'' @
     ''/// @access public\<newline>'' @
     ''/// @alias carbon--theme--'' @ defaultTheme @ ''\<newline>'' @
     ''/// @group @carbon/themes\<newline>'' @
     defaultThemeMapName @ '': $carbon--theme--'' @ defaultTheme @ '' !default;\<newline>'') = c # rest" and "c \<noteq> CHR ''@''"
    using themeMaps_then_newlines by blast
  then show ?thesis
    unfolding themeMapsFile_def by (intro exI[of _ c] exI[of _ rest]) simp
qed

lemma bodies_differ:
  "tokensFile fmt tc md \<noteq> mixinsFile fmt tc'"
  "tokensFile fmt tc md \<noteq> themeMapsFile fmt ths"
  "mixinsFile fmt tc \<noteq> themeMapsFile fmt ths"
proof -
  obtain r where r: "themeMixin fmt tc' = CHR ''/'' # r"
    using themeMixin_starts by blast
  obtain t where t: "tokensFile fmt tc md = FILE_BANNER @ ''\<newline>@import './theme-maps';\<newline>\<newline>'' @ t"
    and t': "t = [] \<or> hd t = CHR ''\<newline>''"
    using tokensFile_after_import by blast
  from t' show "tokensFile fmt tc md \<noteq> mixinsFile fmt tc'"
    by (auto simp: t mixinsFile_def r)
  obtain c m where m: "themeMapsFile fmt ths = FILE_BANNER @ ''\<newline>'' @ c # m" and c: "c \<noteq> CHR ''@''"
    using themeMapsFile_starts by blast
  from c show "tokensFile fmt tc md \<noteq> themeMapsFile fmt ths"
    by (simp add: t m)
  from c show "mixinsFile fmt tc \<noteq> themeMapsFile fmt ths"
    by (simp add: mixinsFile_def m)
qed

subsection \<open>Failures\<close>

lemma loadMetadata_Inl:
  "loadMetadata fmt (Inl e) w = (emptyMetadata, w\<lparr>trace := trace w @ [ConsoleError e]\<rparr>)"
  by (simp add: loadMetadata_def emit_def)

lemma tokenData_emptyMetadata: "tokenData emptyMetadata token = None"
  by (simp add: tokenData_def emptyMetadata_def)

lemma formatterAndWrites_simps:
  "formatterAndWrites [] = []"
  "formatterAndWrites (Info t # evs) = formatterAndWrites evs"
  "formatterAndWrites (Success t # evs) = formatterAndWrites evs"
  "formatterAndWrites (ConsoleError e # evs) = formatterAndWrites evs"
  "formatterAndWrites (EnsureDir t # evs) = formatterAndWrites evs"
  "formatterAndWrites (Format t # evs) = Format t # formatterAndWrites evs"
  "formatterAndWrites (WriteFile p t # evs) = WriteFile p t # formatterAndWrites evs"
  "formatterAndWrites (evs @ evs') = formatterAndWrites evs @ formatterAndWrites evs'"
  by (simp_all add: formatterAndWrites_def)

text \<open>
  C8: when the load of the metadata document fails, the error is written to the console
  right after the start message and the run goes on with the empty metadata: the body
  handed to the formatter has, for every colour token, the fixed annotation block and
  the declaration line and nothing else; if the formatter accepts the three bodies, the
  run completes, writes the three files and reports success.
\<close>

theorem load_failure_degrades:
  "take 4 (eventsOfRun w (snd (build fmt prettier ths tokenColors (Inl e) w))) =
     [Info ''Building scss files for themes...'', ConsoleError e, EnsureDir SCSS_DIR,
      Format (tokensFile fmt tokenColors emptyMetadata)] \<and>
   tokensFile fmt tokenColors emptyMetadata =
     FILE_BANNER @ ''\<newline>'' @
     ''@import './theme-maps';\<newline>\<newline>'' @
     concat (map (\<lambda>token.
                    ''\<newline>\<newline>/// @type Color\<newline>/// @access public\<newline>/// @group @carbon/themes'' @
                    ''\<newline>$'' @ fmt token @ '': map-get($carbon--theme, '' @ fmt token @ '') !default;\<newline>'')
               tokenColors) \<and>
   (prettier (tokensFile fmt tokenColors emptyMetadata) = Inr out1 \<and>
    prettier (mixinsFile fmt tokenColors) = Inr out2 \<and>
    prettier (themeMapsFile fmt ths) = Inr out3 \<longrightarrow>
      build fmt prettier ths tokenColors (Inl e) w =
        (Inr (),
         w\<lparr>files := (files w)(TOKENS_ENTRYPOINT \<mapsto> out1, MIXINS_ENTRYPOINT \<mapsto> out2,
                                  MAPS_ENTRYPOINT \<mapsto> out3),
            trace := trace w @
              [Info ''Building scss files for themes...'', ConsoleError e, EnsureDir SCSS_DIR,
               Format (tokensFile fmt tokenColors emptyMetadata), WriteFile TOKENS_ENTRYPOINT out1,
               Format (mixinsFile fmt tokenColors), WriteFile MIXINS_ENTRYPOINT out2,
               Format (themeMapsFile fmt ths), WriteFile MAPS_ENTRYPOINT out3,
               Success (''Done! '' @ [CHR 0xF0, CHR 0x9F, CHR 0x8E, CHR 0x89])]\<rparr>))"
proof (intro conjI impI)
  note B = build_unfold[OF loadMetadata_Inl, of fmt prettier ths tokenColors e w]
  show "take 4 (eventsOfRun w (snd (build fmt prettier ths tokenColors (Inl e) w))) =
     [Info ''Building scss files for themes...'', ConsoleError e, EnsureDir SCSS_DIR,
      Format (tokensFile fmt tokenColors emptyMetadata)]"
    by (simp add: B eventsOfRun_def emit_def split: sum.splits)
  show "tokensFile fmt tokenColors emptyMetadata =
     FILE_BANNER @ ''\<newline>'' @
     ''@import './theme-maps';\<newline>\<newline>'' @
     concat (map (\<lambda>token.
                    ''\<newline>\<newline>/// @type Color\<newline>/// @access public\<newline>/// @group @carbon/themes'' @
                    ''\<newline>$'' @ fmt token @ '': map-get($carbon--theme, '' @ fmt token @ '') !default;\<newline>'')
               tokenColors)"
    unfolding tokensFile_def defaultThemeMapName_def fold_append_concat tokenData_emptyMetadata tokenDoc_None
    by (simp only: append_assoc append.simps)
  assume "prettier (tokensFile fmt tokenColors emptyMetadata) = Inr out1 \<and>
    prettier (mixinsFile fmt tokenColors) = Inr out2 \<and>
    prettier (themeMapsFile fmt ths) = Inr out3"
  then show "build fmt prettier ths tokenColors (Inl e) w =
        (Inr (),
         w\<lparr>files := (files w)(TOKENS_ENTRYPOINT \<mapsto> out1, MIXINS_ENTRYPOINT \<mapsto> out2,
                                  MAPS_ENTRYPOINT \<mapsto> out3),
            trace := trace w @
              [Info ''Building scss files for themes...'', ConsoleError e, EnsureDir SCSS_DIR,
               Format (tokensFile fmt tokenColors emptyMetadata), WriteFile TOKENS_ENTRYPOINT out1,
               Format (mixinsFile fmt tokenColors), WriteFile MIXINS_ENTRYPOINT out2,
               Format (themeMapsFile fmt ths), WriteFile MAPS_ENTRYPOINT out3,
               Success (''Done! '' @ [CHR 0xF0, CHR 0x9F, CHR 0x8E, CHR 0x89])]\<rparr>)"
    by (simp add: B emit_def)
qed

theorem load_failure_degrades_witness:
  "build formatTokenName Inr scenarioThemes scenarioTokens (Inl LoadError) emptyWorld =
     (Inr (),
      emptyWorld\<lparr>files := (files emptyWorld)
           (TOKENS_ENTRYPOINT \<mapsto> tokensFile formatTokenName scenarioTokens emptyMetadata,
            MIXINS_ENTRYPOINT \<mapsto> mixinsFile formatTokenName scenarioTokens,
            MAPS_ENTRYPOINT \<mapsto> themeMapsFile formatTokenName scenarioThemes),
         trace := trace emptyWorld @
           [Info ''Building scss files for themes...'', ConsoleError LoadError, EnsureDir SCSS_DIR,
            Format (tokensFile formatTokenName scenarioTokens emptyMetadata),
            WriteFile TOKENS_ENTRYPOINT (tokensFile formatTokenName scenarioTokens emptyMetadata),
            Format (mixinsFile formatTokenName scenarioTokens),
            WriteFile MIXINS_ENTRYPOINT (mixinsFile formatTokenName scenarioTokens),
            Format (themeMapsFile formatTokenName scenarioThemes),
            WriteFile MAPS_ENTRYPOINT (themeMapsFile formatTokenName scenarioThemes),
            Success (''Done! '' @ [CHR 0xF0, CHR 0x9F, CHR 0x8E, CHR 0x89])]\<rparr>)"
proof -
  have accepted:
    "Inr (tokensFile formatTokenName scenarioTokens emptyMetadata) =
       (Inr (tokensFile formatTokenName scenarioTokens emptyMetadata) :: error + string) \<and>
     Inr (mixinsFile formatTokenName scenarioTokens) =
       (Inr (mixinsFile formatTokenName scenarioTokens) :: error + string) \<and>
     Inr (themeMapsFile formatTokenName scenarioThemes) =
       (Inr (themeMapsFile formatTokenName scenarioThemes) :: error + string)"
    by simp
  from load_failure_degrades[of emptyWorld formatTokenName Inr scenarioThemes scenarioTokens LoadError
      "tokensFile formatTokenName scenarioTokens emptyMetadata"
      "mixinsFile formatTokenName scenarioTokens" "themeMapsFile formatTokenName scenarioThemes"]
  show ?thesis
    using accepted by blast
qed

text \<open>
  C9: a formatter that throws on a body ends the run with that error, which the
  script writes to the console. Each body is handed to the formatter at most once and
  nothing is formatted or written after the failure; the files written before it keep
  their new content. The order is tokens, mixins, theme maps.
\<close>

theorem formatter_failure_aborts:
  "(let md = fst (loadMetadata fmt loaded w);
        run = build fmt prettier ths tokenColors loaded w
    in (prettier (tokensFile fmt tokenColors md) = Inl e \<longrightarrow>
          fst run = Inl e \<and>
          files (snd run) = files w \<and>
          formatterAndWrites (eventsOfRun w (snd run)) = [Format (tokensFile fmt tokenColors md)]) \<and>
       (prettier (tokensFile fmt tokenColors md) = Inr out1 \<and>
        prettier (mixinsFile fmt tokenColors) = Inl e \<longrightarrow>
          fst run = Inl e \<and>
          files (snd run) = (files w)(TOKENS_ENTRYPOINT \<mapsto> out1) \<and>
          formatterAndWrites (eventsOfRun w (snd run)) =
            [Format (tokensFile fmt tokenColors md), WriteFile TOKENS_ENTRYPOINT out1,
             Format (mixinsFile fmt tokenColors)]) \<and>
       (prettier (tokensFile fmt tokenColors md) = Inr out1 \<and>
        prettier (mixinsFile fmt tokenColors) = Inr out2 \<and>
        prettier (themeMapsFile fmt ths) = Inl e \<longrightarrow>
          fst run = Inl e \<and>
          files (snd run) = (files w)(TOKENS_ENTRYPOINT \<mapsto> out1, MIXINS_ENTRYPOINT \<mapsto> out2) \<and>
          formatterAndWrites (eventsOfRun w (snd run)) =
            [Format (tokensFile fmt tokenColors md), WriteFile TOKENS_ENTRYPOINT out1,
             Format (mixinsFile fmt tokenColors), WriteFile MIXINS_ENTRYPOINT out2,
             Format (themeMapsFile fmt ths)]) \<and>
       (fst run = Inl e \<longrightarrow>
          main fmt prettier ths tokenColors loaded w = emit (ConsoleError e) (snd run)))"
proof -
  obtain md evs where E: "formatterAndWrites evs = []"
    and L: "\<And>v. loadMetadata fmt loaded v = (md, v\<lparr>trace := trace v @ evs\<rparr>)"
    using loadMetadata_any by blast
  note B = build_unfold[OF L, of prettier ths tokenColors w]
  have M: "main fmt prettier ths tokenColors loaded w = emit (ConsoleError e) (snd (build fmt prettier ths tokenColors loaded w))"
    if "fst (build fmt prettier ths tokenColors loaded w) = Inl e"
    using that by (cases "build fmt prettier ths tokenColors loaded w") (simp add: main_def)
  show ?thesis
    unfolding Let_def L fst_conv
    by (intro conjI impI; (rule M, assumption)?)
       (simp_all add: B eventsOfRun_def emit_def E formatterAndWrites_simps)
qed

theorem formatter_failure_aborts_witness:
  "(fst (build formatTokenName rejectAll scenarioThemes scenarioTokens (Inl LoadError) emptyWorld) = Inl FormatError \<and>
    files (snd (build formatTokenName rejectAll scenarioThemes scenarioTokens (Inl LoadError) emptyWorld)) = Map.empty) \<and>
   (fst (build formatTokenName (rejectOnly (mixinsFile formatTokenName scenarioTokens))
           scenarioThemes scenarioTokens (Inl LoadError) emptyWorld) = Inl FormatError \<and>
    files (snd (build formatTokenName (rejectOnly (mixinsFile formatTokenName scenarioTokens))
           scenarioThemes scenarioTokens (Inl LoadError) emptyWorld)) =
      [TOKENS_ENTRYPOINT \<mapsto> tokensFile formatTokenName scenarioTokens emptyMetadata]) \<and>
   (fst (build formatTokenName (rejectOnly (themeMapsFile formatTokenName scenarioThemes))
           scenarioThemes scenarioTokens (Inl LoadError) emptyWorld) = Inl FormatError \<and>
    files (snd (build formatTokenName (rejectOnly (themeMapsFile formatTokenName scenarioThemes))
           scenarioThemes scenarioTokens (Inl LoadError) emptyWorld)) =
      [TOKENS_ENTRYPOINT \<mapsto> tokensFile formatTokenName scenarioTokens emptyMetadata,
       MIXINS_ENTRYPOINT \<mapsto> mixinsFile formatTokenName scenarioTokens]) \<and>
   main formatTokenName rejectAll scenarioThemes scenarioTokens (Inl LoadError) emptyWorld =
     emit (ConsoleError FormatError)
       (snd (build formatTokenName rejectAll scenarioThemes scenarioTokens (Inl LoadError) emptyWorld))"
proof -
  have md: "fst (loadMetadata formatTokenName (Inl LoadError) emptyWorld) = emptyMetadata"
    by (simp add: loadMetadata_Inl)
  have first: "rejectAll (tokensFile formatTokenName scenarioTokens emptyMetadata) = Inl FormatError"
    by (simp add: rejectAll_def)
  have second:
    "rejectOnly (mixinsFile formatTokenName scenarioTokens)
       (tokensFile formatTokenName scenarioTokens emptyMetadata) =
         Inr (tokensFile formatTokenName scenarioTokens emptyMetadata) \<and>
     rejectOnly (mixinsFile formatTokenName scenarioTokens) (mixinsFile formatTokenName scenarioTokens) =
         Inl FormatError"
    by (simp add: rejectOnly_def bodies_differ)
  have third:
    "rejectOnly (themeMapsFile formatTokenName scenarioThemes)
       (tokensFile formatTokenName scenarioTokens emptyMetadata) =
         Inr (tokensFile formatTokenName scenarioTokens emptyMetadata) \<and>
     rejectOnly (themeMapsFile formatTokenName scenarioThemes) (mixinsFile formatTokenName scenarioTokens) =
         Inr (mixinsFile formatTokenName scenarioTokens) \<and>
     rejectOnly (themeMapsFile formatTokenName scenarioThemes) (themeMapsFile formatTokenName scenarioThemes) =
         Inl FormatError"
    by (simp add: rejectOnly_def bodies_differ)
  have files0: "files emptyWorld = Map.empty"
    by (simp add: emptyWorld_def)
  from first md
    formatter_failure_aborts[of formatTokenName "Inl LoadError" emptyWorld rejectAll
      scenarioThemes scenarioTokens FormatError]
  have i1: "fst (build formatTokenName rejectAll scenarioThemes scenarioTokens (Inl LoadError) emptyWorld) = Inl FormatError \<and>
    files (snd (build formatTokenName rejectAll scenarioThemes scenarioTokens (Inl LoadError) emptyWorld)) = Map.empty \<and>
    main formatTokenName rejectAll scenarioThemes scenarioTokens (Inl LoadError) emptyWorld =
     emit (ConsoleError FormatError)
       (snd (build formatTokenName rejectAll scenarioThemes scenarioTokens (Inl LoadError) emptyWorld))"
    by (simp add: Let_def files0)
  from second md
    formatter_failure_aborts[of formatTokenName "Inl LoadError" emptyWorld
      "rejectOnly (mixinsFile formatTokenName scenarioTokens)" scenarioThemes scenarioTokens FormatError
      "tokensFile formatTokenName scenarioTokens emptyMetadata"]
  have i2: "fst (build formatTokenName (rejectOnly (mixinsFile formatTokenName scenarioTokens))
           scenarioThemes scenarioTokens (Inl LoadError) emptyWorld) = Inl FormatError \<and>
    files (snd (build formatTokenName (rejectOnly (mixinsFile formatTokenName scenarioTokens))
           scenarioThemes scenarioTokens (Inl LoadError) emptyWorld)) =
      [TOKENS_ENTRYPOINT \<mapsto> tokensFile formatTokenName scenarioTokens emptyMetadata]"
    by (simp add: Let_def files0)
  from third md
    formatter_failure_aborts[of formatTokenName "Inl LoadError" emptyWorld
      "rejectOnly (themeMapsFile formatTokenName scenarioThemes)" scenarioThemes scenarioTokens FormatError
      "tokensFile formatTokenName scenarioTokens emptyMetadata" "mixinsFile formatTokenName scenarioTokens"]
  have i3: "fst (build formatTokenName (rejectOnly (themeMapsFile formatTokenName scenarioThemes))
           scenarioThemes scenarioTokens (Inl LoadError) emptyWorld) = Inl FormatError \<and>
    files (snd (build formatTokenName (rejectOnly (themeMapsFile formatTokenName scenarioThemes))
           scenarioThemes scenarioTokens (Inl LoadError) emptyWorld)) =
      [TOKENS_ENTRYPOINT \<mapsto> tokensFile formatTokenName scenarioTokens emptyMetadata,
       MIXINS_ENTRYPOINT \<mapsto> mixinsFile formatTokenName scenarioTokens]"
    by (simp add: Let_def files0)
  from i1 i2 i3 show ?thesis
    by blast
qed



subsection \<open>The metadata normalizer\<close>

lemma execAt_SomeD: "execAt alts s = Some m \<Longrightarrow> m \<in> set alts \<and> prefix m s"
  by (auto simp: execAt_def find_Some_iff)

lemma replaceAll_Nil:
  "replaceAll alts f [] = (case execAt alts [] of None \<Rightarrow> [] | Some m \<Rightarrow> f [])"
  by (subst replaceAll.simps) (auto split: option.splits dest: execAt_SomeD)

lemma replaceAll_no_match:
  "execAt alts (c # cs) = None \<Longrightarrow> replaceAll alts f (c # cs) = c # replaceAll alts f cs"
  by (subst replaceAll.simps) simp

lemma replaceAll_empty_match:
  "execAt alts (c # cs) = Some [] \<Longrightarrow> replaceAll alts f (c # cs) = f [] @ c # replaceAll alts f cs"
  by (subst replaceAll.simps) simp

lemma replaceAll_match:
  "execAt alts s = Some m \<Longrightarrow> m \<noteq> [] \<Longrightarrow>
   replaceAll alts f s = f m @ replaceAll alts f (drop (length m) s)"
  by (subst replaceAll.simps) simp

lemma replaceAll_cong:
  "(\<And>m. m \<in> set alts \<Longrightarrow> f m = g m) \<Longrightarrow> replaceAll alts f s = replaceAll alts g s"
proof (induction alts f s rule: replaceAll.induct)
  case (1 alts f s)
  show ?case
  proof (cases "execAt alts s")
    case None
    with 1 show ?thesis
      by (cases s) (simp_all add: replaceAll_Nil replaceAll_no_match)
  next
    case (Some m)
    then have fg: "f m = g m"
      using 1(4) execAt_SomeD by blast
    show ?thesis
    proof (cases "m = []")
      case True
      with Some fg 1 show ?thesis
        by (cases s) (simp_all add: replaceAll_Nil replaceAll_empty_match)
    next
      case False
      with Some fg 1 show ?thesis
        by (simp add: replaceAll_match)
    qed
  qed
qed

lemma fold_replaceMap:
  "fold (\<lambda>n m. m(n \<mapsto> fmt n)) names m0 n = (if n \<in> set names then Some (fmt n) else m0 n)"
  by (induction names arbitrary: m0) auto

lemma replaceMap_lookup:
  "replaceMap fmt names n = (if n \<in> set names then Some (fmt n) else None)"
  by (simp add: replaceMap_def fold_replaceMap)

lemma replaceAll_names:
  assumes "names \<noteq> []"
  shows "replaceAll (namesRegEx names) (replacement (replaceMap fmt names)) s =
         replaceAll names (wrapped fmt) s"
proof -
  have "replacement (replaceMap fmt names) m = wrapped fmt m" if "m \<in> set names" for m
    using that by (simp add: replacement_def replaceMap_lookup wrapped_def)
  then show ?thesis
    using assms replaceAll_cong[of names "replacement (replaceMap fmt names)" "wrapped fmt" s]
    by (simp add: namesRegEx_def)
qed

lemma transformToken_fields:
  "tokens (transformToken fmt re rm r md) = tokens md"
  "arrays (transformToken fmt re rm r md) =
     (case role (objects md r) of
        None \<Rightarrow> arrays md
      | Some a \<Rightarrow> (arrays md)(a := map (replaceAll re (replacement rm)) (arrays md a)))"
  "objects (transformToken fmt re rm r md) =
     (objects md)(r := (objects md r)\<lparr>alias := map_option (formatAlias fmt) (alias (objects md r))\<rparr>)"
  "metadata.more (transformToken fmt re rm r md) = metadata.more md"
  by (auto simp: transformToken_def Let_def formatAlias_def fun_eq_iff split: option.splits)

lemma funpow_stable: "f (f x) = f x \<Longrightarrow> 0 < k \<Longrightarrow> (f ^^ k) x = f x"
proof (induction k)
  case 0
  then show ?case by simp
next
  case (Suc k)
  then show ?case
    by (cases "k = 0") simp_all
qed

lemma funpow_twice_stable: "f (f x) = f x \<Longrightarrow> (f ^^ k) ((f ^^ k) x) = (f ^^ k) x"
proof (cases "k = 0")
  case True
  then show ?thesis by simp
next
  case False
  assume st: "f (f x) = f x"
  with False have "(f ^^ k) x = f x"
    by (simp add: funpow_stable)
  moreover from st False have "(f ^^ k) (f x) = f (f x)"
    by (intro funpow_stable) simp_all
  ultimately show ?thesis
    using st by simp
qed

lemma holders_Cons:
  "holders md (x # rs) a =
     (if role (objects md x) = Some a then Suc (holders md rs a) else holders md rs a)"
  by (simp add: holders_def)

lemma fold_transformToken:
  "fold (transformToken fmt re rm) rs md =
     md\<lparr>arrays := (\<lambda>a. (map (replaceAll re (replacement rm)) ^^ holders md rs a) (arrays md a)),
        objects := (\<lambda>r. (objects md r)
                      \<lparr>alias := (map_option (formatAlias fmt) ^^ count_list rs r) (alias (objects md r))\<rparr>)\<rparr>"
proof (induction rs arbitrary: md)
  case Nil
  then show ?case
    by (simp add: holders_def)
next
  case (Cons x rs)
  let ?md1 = "transformToken fmt re rm x md"
  have roles: "role (objects ?md1 r) = role (objects md r)" for r
    by (simp add: transformToken_fields)
  then have h: "holders ?md1 rs a = holders md rs a" for a
    by (simp add: holders_def)
  have "fold (transformToken fmt re rm) (x # rs) md = fold (transformToken fmt re rm) rs ?md1"
    by simp
  also have "\<dots> = ?md1\<lparr>arrays := (\<lambda>a. (map (replaceAll re (replacement rm)) ^^ holders ?md1 rs a) (arrays ?md1 a)),
        objects := (\<lambda>r. (objects ?md1 r)
                      \<lparr>alias := (map_option (formatAlias fmt) ^^ count_list rs r) (alias (objects ?md1 r))\<rparr>)\<rparr>"
    by (rule Cons.IH)
  also have "\<dots> = md\<lparr>arrays := (\<lambda>a. (map (replaceAll re (replacement rm)) ^^ holders md (x # rs) a) (arrays md a)),
        objects := (\<lambda>r. (objects md r)
                      \<lparr>alias := (map_option (formatAlias fmt) ^^ count_list (x # rs) r) (alias (objects md r))\<rparr>)\<rparr>"
  proof (rule metadata.equality)
    show "arrays (?md1\<lparr>arrays := (\<lambda>a. (map (replaceAll re (replacement rm)) ^^ holders ?md1 rs a) (arrays ?md1 a)),
        objects := (\<lambda>r. (objects ?md1 r)
                      \<lparr>alias := (map_option (formatAlias fmt) ^^ count_list rs r) (alias (objects ?md1 r))\<rparr>)\<rparr>) =
      arrays (md\<lparr>arrays := (\<lambda>a. (map (replaceAll re (replacement rm)) ^^ holders md (x # rs) a) (arrays md a)),
        objects := (\<lambda>r. (objects md r)
                      \<lparr>alias := (map_option (formatAlias fmt) ^^ count_list (x # rs) r) (alias (objects md r))\<rparr>)\<rparr>)"
      by (auto simp: h holders_Cons transformToken_fields fun_eq_iff funpow_swap1 split: option.splits)
    show "objects (?md1\<lparr>arrays := (\<lambda>a. (map (replaceAll re (replacement rm)) ^^ holders ?md1 rs a) (arrays ?md1 a)),
        objects := (\<lambda>r. (objects ?md1 r)
                      \<lparr>alias := (map_option (formatAlias fmt) ^^ count_list rs r) (alias (objects ?md1 r))\<rparr>)\<rparr>) =
      objects (md\<lparr>arrays := (\<lambda>a. (map (replaceAll re (replacement rm)) ^^ holders md (x # rs) a) (arrays md a)),
        objects := (\<lambda>r. (objects md r)
                      \<lparr>alias := (map_option (formatAlias fmt) ^^ count_list (x # rs) r) (alias (objects md r))\<rparr>)\<rparr>)"
      by (auto simp: transformToken_fields fun_eq_iff funpow_swap1)
  qed (simp_all add: transformToken_fields)
  finally show ?case .
qed

lemma transformMetadata_result:
  assumes "tokens md = Some rs"
  shows "transformMetadata fmt md =
     Inr (md\<lparr>arrays := (\<lambda>a. (map (replaceAll (tokenNames md rs) (wrapped fmt)) ^^ holders md rs a) (arrays md a)),
             objects := (\<lambda>r. (objects md r)
                      \<lparr>alias := (map_option (formatAlias fmt) ^^ count_list rs r) (alias (objects md r))\<rparr>)\<rparr>)"
proof (cases "rs = []")
  case True
  with assms show ?thesis
    by (simp add: transformMetadata_def holders_def)
next
  case False
  then have "tokenNames md rs \<noteq> []"
    by (simp add: tokenNames_def)
  then have "replaceAll (namesRegEx (tokenNames md rs)) (replacement (replaceMap fmt (tokenNames md rs))) =
             replaceAll (tokenNames md rs) (wrapped fmt)"
    by (intro ext replaceAll_names)
  with assms show ?thesis
    by (simp add: transformMetadata_def fold_transformToken)
qed

lemma count_list_distinct: "distinct xs \<Longrightarrow> x \<in> set xs \<Longrightarrow> count_list xs x = 1"
  by (induction xs) (auto simp: count_list_0_iff)

lemma holders_unshared:
  assumes "distinct rs"
    and "\<forall>r \<in> set rs. \<forall>r' \<in> set rs. role (objects md r) = role (objects md r') \<longrightarrow>
           role (objects md r) = None \<or> r = r'"
    and "r \<in> set rs" and "role (objects md r) = Some a"
  shows "holders md rs a = 1"
  using assms
proof (induction rs)
  case Nil
  then show ?case by simp
next
  case (Cons x rs)
  show ?case
  proof (cases "x = r")
    case True
    have "role (objects md r') \<noteq> Some a" if "r' \<in> set rs" for r'
      using Cons.prems that True by (metis distinct.simps(2) list.set_intros(1,2) option.distinct(1))
    then have "Some a \<notin> (\<lambda>r. role (objects md r)) ` set rs"
      by force
    then have "holders md rs a = 0"
      by (simp add: holders_def count_list_0_iff)
    with True Cons.prems(4) show ?thesis
      by (simp add: holders_Cons)
  next
    case False
    with Cons.prems have "r \<in> set rs"
      by simp
    moreover from Cons.prems(2) have "\<forall>r \<in> set rs. \<forall>r' \<in> set rs. role (objects md r) = role (objects md r') \<longrightarrow>
           role (objects md r) = None \<or> r = r'"
      by simp
    ultimately have "holders md rs a = 1"
      using Cons.IH Cons.prems(1,4) by simp
    moreover have "role (objects md x) \<noteq> Some a"
      using Cons.prems(2,4) False \<open>r \<in> set rs\<close>
      by (metis list.set_intros(1,2) option.distinct(1))
    ultimately show ?thesis
      by (simp add: holders_Cons)
  qed
qed

text \<open>Rules that evaluate the normalizer on concrete documents.\<close>

lemmas evaluation_rules =
  replaceAll.simps execAt_def namesRegEx_def tokenNames_def replaceMap_def replacement_def
  transformToken_def transformMetadata_def Let_def isDigit_def toLowerCase_def

text \<open>
  C5, as the claim states it, fails, for two reasons. A document without a token
  sequence makes the pass throw, so that it does not return for every metadata set.
  And the pass rewrites the role arrays in place: an array that two entries hold (an
  anchor and an alias node of the YAML file load as one array) is rewritten once for
  each of them, and its strings are then not the result of one replacement. With the
  entries \<open>focus\<close> and \<open>ui01\<close> holding the one role \<open>focus ring\<close>, the pass leaves
  \<open>`$`$focus`` ring\<close>, where one replacement gives \<open>`$focus` ring\<close>.
\<close>

theorem transformMetadata_counterexample:
  "transformMetadata formatTokenName emptyMetadata = Inl TypeError \<and>
   (case transformMetadata formatTokenName sharedMetadata of
      Inl e \<Rightarrow> []
    | Inr md' \<Rightarrow> arrays md' 0) = [''`$`$focus`` ring''] \<and>
   map (replaceAll [''focus'', ''ui01''] (\<lambda>m. ''`$'' @ formatTokenName m @ ''`'')) [''focus ring''] =
     [''`$focus` ring'']"
  by (simp add: emptyMetadata_def sharedMetadata_def evaluation_rules)

text \<open>
  C5, amended: on a document with a token sequence (the names being literal
  identifiers, for which the pattern is an alternation of literals),
  \<open>transformMetadata\<close> raises no error and returns the same structure. The sequence of
  entries, the names, the role references and the deprecation flags are untouched.
  Each role array is rewritten by the global replacement over the alternation of all
  names in entry order, a match \<open>m\<close> becoming the formatted name of \<open>m\<close> between
  backticks after a \<open>$\<close>, once for each entry of the sequence that holds it; the alias
  of each object is replaced, when present and not empty, by its formatted name, once
  for each occurrence of the object in the sequence. In a document without sharing
  that is once: every role string of every entry is the one replacement of the
  original, every alias the formatted original.
\<close>

theorem transformMetadata_normalizes:
  assumes "tokens md = Some rs" and "\<forall>r \<in> set rs. literalName (name (objects md r))"
  shows "\<exists>md'. transformMetadata fmt md = Inr md' \<and>
     tokens md' = Some rs \<and>
     (\<forall>r. name (objects md' r) = name (objects md r) \<and>
          role (objects md' r) = role (objects md r) \<and>
          deprecated (objects md' r) = deprecated (objects md r) \<and>
          alias (objects md' r) =
            (map_option (\<lambda>al. if al \<noteq> [] then fmt al else al) ^^ count_list rs r) (alias (objects md r))) \<and>
     (\<forall>a. arrays md' a =
          (map (replaceAll (map (\<lambda>r. name (objects md r)) rs) (\<lambda>m. ''`$'' @ fmt m @ ''`'')) ^^
             count_list (map (\<lambda>r. role (objects md r)) rs) (Some a)) (arrays md a)) \<and>
     (distinct rs \<and>
      (\<forall>r \<in> set rs. \<forall>r' \<in> set rs. role (objects md r) = role (objects md r') \<longrightarrow>
         role (objects md r) = None \<or> r = r') \<longrightarrow>
      (\<forall>r \<in> set rs.
         alias (objects md' r) = map_option (\<lambda>al. if al \<noteq> [] then fmt al else al) (alias (objects md r)) \<and>
         (\<forall>a. role (objects md r) = Some a \<longrightarrow>
            arrays md' a =
              map (replaceAll (map (\<lambda>r. name (objects md r)) rs) (\<lambda>m. ''`$'' @ fmt m @ ''`''))
                (arrays md a))))"
proof -
  let ?R = "replaceAll (map (\<lambda>r. name (objects md r)) rs) (\<lambda>m. ''`$'' @ fmt m @ ''`'')"
  let ?A = "\<lambda>al. if al \<noteq> [] then fmt al else al"
  have R: "replaceAll (tokenNames md rs) (wrapped fmt) = ?R"
    by (simp add: tokenNames_def wrapped_def[abs_def])
  have A: "formatAlias fmt = ?A"
    by (simp add: formatAlias_def[abs_def])
  define md' where "md' = md\<lparr>arrays := (\<lambda>a. (map ?R ^^ holders md rs a) (arrays md a)),
             objects := (\<lambda>r. (objects md r)
                      \<lparr>alias := (map_option ?A ^^ count_list rs r) (alias (objects md r))\<rparr>)\<rparr>"
  have res: "transformMetadata fmt md = Inr md'"
    using transformMetadata_result[OF assms(1), of fmt] by (simp add: md'_def R A)
  have unshared: "alias (objects md' r) = map_option ?A (alias (objects md r)) \<and>
         (\<forall>a. role (objects md r) = Some a \<longrightarrow> arrays md' a = map ?R (arrays md a))"
    if "distinct rs" and "\<forall>r \<in> set rs. \<forall>r' \<in> set rs. role (objects md r) = role (objects md r') \<longrightarrow>
         role (objects md r) = None \<or> r = r'" and "r \<in> set rs" for r
    using that holders_unshared[OF that(1,2,3)] count_list_distinct[OF that(1,3)]
    by (simp add: md'_def)
  show ?thesis
    by (rule exI[of _ md']) (use res assms(1) unshared in \<open>auto simp: md'_def holders_def\<close>)
qed

theorem transformMetadata_normalizes_witness:
  "\<exists>md'. transformMetadata formatTokenName exampleMetadata = Inr md' \<and>
          arrays md' 0 = [''see `$interactive-01`'', ''over `$ui-01`''] \<and>
          alias (objects md' 0) = Some ''brand-01'' \<and>
          name (objects md' 0) = ''interactive01'' \<and> deprecated (objects md' 0) = Some True"
proof -
  have toks: "tokens exampleMetadata = Some [0, 1]"
    by (simp add: exampleMetadata_def)
  have lit: "\<forall>r \<in> set [0, 1]. literalName (name (objects exampleMetadata r))"
    by (simp add: exampleMetadata_def literalName_def)
  have tree: "distinct [0, 1 :: nat] \<and>
      (\<forall>r \<in> set [0, 1]. \<forall>r' \<in> set [0, 1].
         role (objects exampleMetadata r) = role (objects exampleMetadata r') \<longrightarrow>
         role (objects exampleMetadata r) = None \<or> r = r')"
    by (simp add: exampleMetadata_def)
  from transformMetadata_normalizes[OF toks lit, of formatTokenName] tree
  obtain md' where "transformMetadata formatTokenName exampleMetadata = Inr md'"
    and "\<forall>r. name (objects md' r) = name (objects exampleMetadata r) \<and>
          deprecated (objects md' r) = deprecated (objects exampleMetadata r)"
    and "\<forall>r \<in> set [0, 1].
         alias (objects md' r) =
           map_option (\<lambda>al. if al \<noteq> [] then formatTokenName al else al) (alias (objects exampleMetadata r)) \<and>
         (\<forall>a. role (objects exampleMetadata r) = Some a \<longrightarrow>
            arrays md' a =
              map (replaceAll (map (\<lambda>r. name (objects exampleMetadata r)) [0, 1])
                     (\<lambda>m. ''`$'' @ formatTokenName m @ ''`''))
                (arrays exampleMetadata a))"
    by blast
  then show ?thesis
    by (intro exI[of _ md']) (simp add: exampleMetadata_def replaceAll.simps execAt_def isDigit_def toLowerCase_def)
qed

subsection \<open>Metadata entries outside the token list\<close>

lemma find_filter_superset:
  "(\<And>x. P x \<Longrightarrow> Q x) \<Longrightarrow> find P (filter Q xs) = find P xs"
  by (induction xs) auto

lemma tokensFile_cong:
  assumes "\<And>token. token \<in> set tokenColors \<Longrightarrow>
             tokenDoc (arrays md) (tokenData md token) = tokenDoc (arrays md') (tokenData md' token)"
  shows "tokensFile fmt tokenColors md = tokensFile fmt tokenColors md'"
proof -
  have "map (\<lambda>token. tokenDoc (arrays md) (tokenData md token) @
                 ''\<newline>$'' @ fmt token @ '': map-get('' @ defaultThemeMapName @ '', ''
                 @ fmt token @ '') !default;\<newline>'') tokenColors =
        map (\<lambda>token. tokenDoc (arrays md') (tokenData md' token) @
                 ''\<newline>$'' @ fmt token @ '': map-get('' @ defaultThemeMapName @ '', ''
                 @ fmt token @ '') !default;\<newline>'') tokenColors"
    using assms by (intro map_cong) simp_all
  then show ?thesis
    unfolding tokensFile_def fold_append_concat by (simp only:)
qed

lemma build_cong_metadata:
  assumes "loadMetadata fmt loaded (emit (Info ''Building scss files for themes...'') w) = (md, w2)"
    and "loadMetadata fmt loaded' (emit (Info ''Building scss files for themes...'') w) = (md', w2)"
    and "tokensFile fmt tokenColors md = tokensFile fmt tokenColors md'"
  shows "build fmt prettier ths tokenColors loaded w = build fmt prettier ths tokenColors loaded' w"
  unfolding build_unfold[OF assms(1)] build_unfold[OF assms(2)] assms(3) ..

lemma count_list_map_cong:
  "(\<And>x. x \<in> set xs \<Longrightarrow> (f x = y) = (g x = y)) \<Longrightarrow> count_list (map f xs) y = count_list (map g xs) y"
  by (induction xs) auto

text \<open>
  C7, as the claim states it, fails: the substitution pattern is built from the names
  of all metadata entries, whether or not they are colour tokens. Adding an entry named
  \<open>focus\<close>, which is not in the token list, changes the comment emitted for
  \<open>interactive01\<close>, whose role text mentions \<open>focus\<close>.
\<close>

theorem absent_entry_counterexample:
  "tokensFile formatTokenName [''interactive01'']
     (fst (loadMetadata formatTokenName (Inr seeFocusMetadata) emptyWorld)) \<noteq>
   tokensFile formatTokenName [''interactive01'']
     (fst (loadMetadata formatTokenName
        (Inr (seeFocusMetadata\<lparr>tokens := Some [0, 1],
                               objects := (objects seeFocusMetadata)(1 := plainFocus)\<rparr>)) emptyWorld)) \<and>
   tokenDoc
     (arrays (fst (loadMetadata formatTokenName (Inr seeFocusMetadata) emptyWorld)))
     (tokenData (fst (loadMetadata formatTokenName (Inr seeFocusMetadata) emptyWorld)) ''interactive01'') =
     ''\<newline>\<newline>/// see focus\<newline>/// @type Color\<newline>/// @access public\<newline>/// @group @carbon/themes'' \<and>
   tokenDoc
     (arrays (fst (loadMetadata formatTokenName
        (Inr (seeFocusMetadata\<lparr>tokens := Some [0, 1],
                               objects := (objects seeFocusMetadata)(1 := plainFocus)\<rparr>)) emptyWorld)))
     (tokenData (fst (loadMetadata formatTokenName
        (Inr (seeFocusMetadata\<lparr>tokens := Some [0, 1],
                               objects := (objects seeFocusMetadata)(1 := plainFocus)\<rparr>)) emptyWorld))
        ''interactive01'') =
     ''\<newline>\<newline>/// see `$focus`\<newline>/// @type Color\<newline>/// @access public\<newline>/// @group @carbon/themes''"
  by (simp add: tokensFile_def loadMetadata_def tokenData_def tokenDoc_def seeFocusMetadata_def
        plainFocus_def emptyMetadata_def evaluation_rules)

text \<open>
  C7, amended: an entry whose name is not in the colour-token list is never selected
  by the lookup, and none of its role, alias and deprecated fields reaches an artifact
  as long as it shares its role array with no other entry: replacing the object of the
  entry by any other of the same name, whose role array no other entry holds either,
  leaves the whole run unchanged, and removing all such entries from the metadata that
  the lookup reads leaves the token-declarations body unchanged. (Its name remains an
  alternative of the substitution pattern; and a role array that it shares with a
  colour token is rewritten once more on its account.)
\<close>

theorem absent_entry_fields_inert:
  assumes "tokens md = Some rs"
    and "name (objects md r) \<notin> set tokenColors"
    and "name e' = name (objects md r)"
    and "\<forall>r' \<in> set rs. r' \<noteq> r \<longrightarrow> role (objects md r') \<noteq> None \<longrightarrow>
           role (objects md r') \<noteq> role (objects md r) \<and> role (objects md r') \<noteq> role e'"
  shows "build fmt prettier ths tokenColors (Inr md) w =
         build fmt prettier ths tokenColors (Inr (md\<lparr>objects := (objects md)(r := e')\<rparr>)) w \<and>
         tokensFile fmt tokenColors md =
         tokensFile fmt tokenColors
           (md\<lparr>tokens := Some (filter (\<lambda>r. name (objects md r) \<in> set tokenColors) rs)\<rparr>)"
proof
  let ?B = "md\<lparr>objects := (objects md)(r := e')\<rparr>"
  let ?v = "emit (Info ''Building scss files for themes...'') w"
  let ?R = "replaceAll (tokenNames md rs) (wrapped fmt)"
  let ?F = "map_option (formatAlias fmt)"
  define A' where "A' = md\<lparr>arrays := (\<lambda>a. (map ?R ^^ holders md rs a) (arrays md a)),
      objects := (\<lambda>x. (objects md x)\<lparr>alias := (?F ^^ count_list rs x) (alias (objects md x))\<rparr>)\<rparr>"
  define B' where "B' = ?B\<lparr>arrays := (\<lambda>a. (map ?R ^^ holders ?B rs a) (arrays ?B a)),
      objects := (\<lambda>x. (objects ?B x)\<lparr>alias := (?F ^^ count_list rs x) (alias (objects ?B x))\<rparr>)\<rparr>"
  have names: "tokenNames ?B rs = tokenNames md rs"
    using assms(3) by (simp add: tokenNames_def)
  have TA: "transformMetadata fmt md = Inr A'"
    using transformMetadata_result[OF assms(1), of fmt] by (simp add: A'_def)
  have "tokens ?B = Some rs"
    using assms(1) by simp
  from transformMetadata_result[OF this, of fmt] have TB: "transformMetadata fmt ?B = Inr B'"
    by (simp only: names B'_def)
  have LA: "loadMetadata fmt (Inr md) ?v = (A', ?v)" and LB: "loadMetadata fmt (Inr ?B) ?v = (B', ?v)"
    by (simp_all add: loadMetadata_def TA TB)
  have nameA: "name (objects A' x) = name (objects md x)" and nameB: "name (objects B' x) = name (objects md x)" for x
    using assms(3) by (simp_all add: A'_def B'_def)
  have tokA: "tokens A' = Some rs" and tokB: "tokens B' = Some rs"
    using assms(1) by (simp_all add: A'_def B'_def)
  have "tokenDoc (arrays A') (tokenData A' token) = tokenDoc (arrays B') (tokenData B' token)"
    if "token \<in> set tokenColors" for token
  proof (cases "find (\<lambda>x. name (objects md x) = token) rs")
    case None
    then show ?thesis
      by (simp add: tokenData_def tokA tokB nameA nameB tokenDoc_def)
  next
    case (Some x)
    then have x: "x \<in> set rs" and "name (objects md x) = token"
      by (auto dest: find_Some_set)
    with that assms(2) have xr: "x \<noteq> r"
      by auto
    have obj: "objects A' x = objects B' x"
      using xr by (simp add: A'_def B'_def)
    have arr: "arrays A' a = arrays B' a" if "role (objects md x) = Some a" for a
    proof -
      from assms(4) x xr that have "role (objects md r) \<noteq> Some a" and "role e' \<noteq> Some a"
        by (metis option.distinct(1))+
      then have "holders ?B rs a = holders md rs a"
        unfolding holders_def by (intro count_list_map_cong) auto
      then show ?thesis
        by (simp add: A'_def B'_def)
    qed
    have dataA: "tokenData A' token = Some (objects A' x)" and dataB: "tokenData B' token = Some (objects B' x)"
      using Some by (simp_all add: tokenData_def tokA tokB nameA nameB)
    have "role (objects A' x) = role (objects md x)"
      by (simp add: A'_def)
    with arr obj show ?thesis
      by (cases "role (objects md x)") (simp_all add: dataA dataB tokenDoc_def)
  qed
  then have "tokensFile fmt tokenColors A' = tokensFile fmt tokenColors B'"
    by (rule tokensFile_cong)
  with LA LB show "build fmt prettier ths tokenColors (Inr md) w =
         build fmt prettier ths tokenColors (Inr ?B) w"
    by (rule build_cong_metadata)
next
  show "tokensFile fmt tokenColors md =
         tokensFile fmt tokenColors
           (md\<lparr>tokens := Some (filter (\<lambda>r. name (objects md r) \<in> set tokenColors) rs)\<rparr>)"
  proof (rule tokensFile_cong)
    fix token
    assume "token \<in> set tokenColors"
    then have "find (\<lambda>x. name (objects md x) = token) (filter (\<lambda>r. name (objects md r) \<in> set tokenColors) rs) =
               find (\<lambda>x. name (objects md x) = token) rs"
      by (intro find_filter_superset) simp
    with assms(1) show "tokenDoc (arrays md) (tokenData md token) =
         tokenDoc (arrays (md\<lparr>tokens := Some (filter (\<lambda>r. name (objects md r) \<in> set tokenColors) rs)\<rparr>))
           (tokenData (md\<lparr>tokens := Some (filter (\<lambda>r. name (objects md r) \<in> set tokenColors) rs)\<rparr>) token)"
      by (simp add: tokenData_def cong: option.case_cong)
  qed
qed

theorem absent_entry_fields_inert_witness:
  "build formatTokenName Inr scenarioThemes scenarioTokens
     (Inr (seeFocusMetadata\<lparr>tokens := Some [0, 1],
                            objects := (objects seeFocusMetadata)(1 := plainFocus)\<rparr>)) emptyWorld =
   build formatTokenName Inr scenarioThemes scenarioTokens
     (Inr (seeFocusMetadata\<lparr>tokens := Some [0, 1],
                            objects := (objects seeFocusMetadata)(1 := plainFocus)\<rparr>
             \<lparr>objects := (objects (seeFocusMetadata\<lparr>tokens := Some [0, 1],
                            objects := (objects seeFocusMetadata)(1 := plainFocus)\<rparr>))(1 := richFocus)\<rparr>))
     emptyWorld"
proof -
  let ?md = "seeFocusMetadata\<lparr>tokens := Some [0, 1],
                            objects := (objects seeFocusMetadata)(1 := plainFocus)\<rparr>"
  have toks: "tokens ?md = Some [0, 1]"
    by simp
  have absent: "name (objects ?md 1) \<notin> set scenarioTokens"
    by (simp add: scenarioTokens_def plainFocus_def)
  have same: "name richFocus = name (objects ?md 1)"
    by (simp add: richFocus_def plainFocus_def)
  have unshared: "\<forall>r' \<in> set [0, 1]. r' \<noteq> 1 \<longrightarrow> role (objects ?md r') \<noteq> None \<longrightarrow>
           role (objects ?md r') \<noteq> role (objects ?md 1) \<and> role (objects ?md r') \<noteq> role richFocus"
    by (simp add: seeFocusMetadata_def plainFocus_def richFocus_def)
  from absent_entry_fields_inert[OF toks absent same unshared, of formatTokenName Inr scenarioThemes emptyWorld]
  show ?thesis
    by (rule conjunct1)
qed

subsection \<open>Running the normalizer twice\<close>

lemma execAt_None_iff: "execAt alts s = None \<longleftrightarrow> (\<forall>a \<in> set alts. \<not> prefix a s)"
  by (auto simp: execAt_def find_None_iff)

lemma replaceAll_noMatch: "noMatch alts s \<Longrightarrow> replaceAll alts f s = s"
  by (induction s) (simp_all add: replaceAll_Nil replaceAll_no_match)

lemma prefix_replaceAll_plain:
  "[] \<notin> set alts \<Longrightarrow> CHR 0x60 \<notin> set q \<Longrightarrow>
   prefix q (replaceAll alts (wrapped fmt) s) \<Longrightarrow> prefix q s"
proof (induction alts "wrapped fmt" s arbitrary: q rule: replaceAll.induct)
  case (1 alts s)
  show ?case
  proof (cases "execAt alts s")
    case None
    show ?thesis
    proof (cases s)
      case Nil
      with None 1(6) show ?thesis
        by (simp add: replaceAll_Nil)
    next
      case (Cons d ds)
      with None 1(6) have p: "prefix q (d # replaceAll alts (wrapped fmt) ds)"
        by (simp add: replaceAll_no_match)
      show ?thesis
      proof (cases q)
        case Nil
        then show ?thesis by simp
      next
        case (Cons c q')
        with p 1(5) have "c = d" and "prefix q' (replaceAll alts (wrapped fmt) ds)" and "CHR 0x60 \<notin> set q'"
          by auto
        with 1(1)[OF None \<open>s = d # ds\<close> 1(4)] have "prefix q' ds"
          by blast
        with Cons \<open>c = d\<close> \<open>s = d # ds\<close> show ?thesis
          by simp
      qed
    qed
  next
    case (Some m)
    then have "m \<in> set alts"
      by (simp add: execAt_SomeD)
    with 1(4) have "m \<noteq> []"
      by auto
    with Some have "replaceAll alts (wrapped fmt) s =
        CHR 0x60 # CHR ''$'' # fmt m @ ''`'' @ replaceAll alts (wrapped fmt) (drop (length m) s)"
      by (simp add: replaceAll_match wrapped_def)
    with 1(5,6) have "q = []"
      by (cases q) auto
    then show ?thesis
      by simp
  qed
qed

lemma prefix_before_char:
  "c \<notin> set a \<Longrightarrow> prefix a (xs @ c # w) \<Longrightarrow> prefix a xs"
  by (auto simp: prefix_append prefix_Cons)

lemma noMatch_append:
  "noMatch alts w \<Longrightarrow>
   (\<And>v' a. suffix v' v \<Longrightarrow> v' \<noteq> [] \<Longrightarrow> a \<in> set alts \<Longrightarrow> \<not> prefix a (v' @ w)) \<Longrightarrow>
   noMatch alts (v @ w)"
proof (induction v)
  case Nil
  then show ?case by simp
next
  case (Cons c v)
  have "execAt alts (c # v @ w) = None"
    using Cons.prems(2)[of "c # v"] by (auto simp: execAt_None_iff)
  moreover have "noMatch alts (v @ w)"
    using Cons.prems by (intro Cons.IH) (auto intro: suffix_ConsI)
  ultimately show ?case
    by simp
qed

lemma match_inside_wrapped:
  assumes "suffix v' (wrapped fmt m)" and "v' \<noteq> []" and "CHR 0x60 \<notin> set a" and "prefix a (v' @ w)"
  shows "sublist a (wrapped fmt m)"
proof -
  from assms(1) have "suffix v' ((''`$'' @ fmt m) @ [CHR 0x60])"
    by (simp add: wrapped_def)
  then have "v' = [] \<or> (\<exists>zs. v' = zs @ [CHR 0x60] \<and> suffix zs (''`$'' @ fmt m))"
    by (simp only: suffix_snoc)
  with assms(2) obtain zs where zs: "v' = zs @ [CHR 0x60]"
    by blast
  with assms(3,4) have "prefix a zs"
    using prefix_before_char[of "CHR 0x60" a zs w] by simp
  with zs have "prefix a v'"
    by simp
  with assms(1) show ?thesis
    by (auto simp: sublist_altdef')
qed

lemma noMatch_replaceAll:
  "[] \<notin> set alts \<Longrightarrow> \<forall>a \<in> set alts. CHR 0x60 \<notin> set a \<Longrightarrow>
   \<forall>m \<in> set alts. \<forall>a \<in> set alts. \<not> sublist a (wrapped fmt m) \<Longrightarrow>
   noMatch alts (replaceAll alts (wrapped fmt) s)"
proof (induction alts "wrapped fmt" s rule: replaceAll.induct)
  case (1 alts s)
  note plain = 1(4,5) and apart = 1(6)
  show ?case
  proof (cases "execAt alts s")
    case None
    show ?thesis
    proof (cases s)
      case Nil
      with None show ?thesis
        by (simp add: replaceAll_Nil)
    next
      case (Cons d ds)
      have rest: "noMatch alts (replaceAll alts (wrapped fmt) ds)"
        using 1(1)[OF None Cons plain apart] .
      have "\<not> prefix a (d # replaceAll alts (wrapped fmt) ds)" if "a \<in> set alts" for a
      proof
        assume p: "prefix a (d # replaceAll alts (wrapped fmt) ds)"
        from that plain have "a \<noteq> []" and tick: "CHR 0x60 \<notin> set a"
          by blast+
        then obtain c q where cq: "a = c # q"
          by (cases a) auto
        with p tick have a: "a = d # q" and "prefix q (replaceAll alts (wrapped fmt) ds)"
          and "CHR 0x60 \<notin> set q"
          by auto
        then have "prefix q ds"
          using prefix_replaceAll_plain plain(1) by blast
        with a have "prefix a (d # ds)"
          by simp
        with None Cons that show False
          by (auto simp: execAt_None_iff)
      qed
      with rest None Cons show ?thesis
        by (simp add: replaceAll_no_match execAt_None_iff)
    qed
  next
    case (Some m)
    then have m: "m \<in> set alts"
      by (simp add: execAt_SomeD)
    with plain have "m \<noteq> []"
      by auto
    have rest: "noMatch alts (replaceAll alts (wrapped fmt) (drop (length m) s))"
      using 1(3)[OF Some \<open>m \<noteq> []\<close> plain apart] .
    have "noMatch alts (wrapped fmt m @ replaceAll alts (wrapped fmt) (drop (length m) s))"
    proof (rule noMatch_append[OF rest])
      fix v' a
      assume "suffix v' (wrapped fmt m)" and "v' \<noteq> []" and a: "a \<in> set alts"
      show "\<not> prefix a (v' @ replaceAll alts (wrapped fmt) (drop (length m) s))"
      proof
        assume "prefix a (v' @ replaceAll alts (wrapped fmt) (drop (length m) s))"
        with \<open>suffix v' (wrapped fmt m)\<close> \<open>v' \<noteq> []\<close> a plain have "sublist a (wrapped fmt m)"
          by (intro match_inside_wrapped) auto
        with apart m a show False
          by blast
      qed
    qed
    with Some \<open>m \<noteq> []\<close> show ?thesis
      by (simp add: replaceAll_match)
  qed
qed

lemma replaceAll_idempotent:
  assumes "[] \<notin> set alts" and "\<forall>a \<in> set alts. CHR 0x60 \<notin> set a"
    and "\<forall>m \<in> set alts. \<forall>a \<in> set alts. \<not> sublist a (wrapped fmt m)"
  shows "replaceAll alts (wrapped fmt) (replaceAll alts (wrapped fmt) s) = replaceAll alts (wrapped fmt) s"
  using assms by (intro replaceAll_noMatch noMatch_replaceAll)

lemma literalName_plain: "literalName n \<Longrightarrow> CHR 0x60 \<notin> set n"
  by (auto simp: literalName_def list_all_iff)

lemma replaceAll_no_alternative: "replaceAll [] f s = s"
  by (induction s) (simp_all add: replaceAll_Nil replaceAll_no_match execAt_def)

text \<open>
  C6, as the claim states it, fails: the names are not rewritten, so the second pass
  uses the same pattern, and a formatted name that still contains a name is matched
  again. With the single token \<open>focus\<close>, whose formatted name is \<open>focus\<close>, the role
  \<open>focus\<close> becomes \<open>`$focus`\<close> and then \<open>`$`$focus``\<close>.
\<close>

theorem transformMetadata_twice_counterexample:
  "(case transformMetadata formatTokenName focusMetadata of
      Inl e \<Rightarrow> Inl e
    | Inr md' \<Rightarrow> transformMetadata formatTokenName md') \<noteq>
   transformMetadata formatTokenName focusMetadata \<and>
   (case transformMetadata formatTokenName focusMetadata of
      Inl e \<Rightarrow> []
    | Inr md' \<Rightarrow> arrays md' 0) = [''`$focus`''] \<and>
   (case (case transformMetadata formatTokenName focusMetadata of
            Inl e \<Rightarrow> Inl e
          | Inr md' \<Rightarrow> transformMetadata formatTokenName md') of
      Inl e \<Rightarrow> []
    | Inr md'' \<Rightarrow> arrays md'' 0) = [''`$`$focus``'']"
proof -
  let ?once = "transformMetadata formatTokenName focusMetadata"
  let ?twice = "case ?once of Inl e \<Rightarrow> Inl e | Inr md' \<Rightarrow> transformMetadata formatTokenName md'"
  have one: "(case ?once of Inl e \<Rightarrow> [] | Inr md' \<Rightarrow> arrays md' 0) = [''`$focus`'']"
    by (simp add: focusMetadata_def emptyMetadata_def evaluation_rules)
  have two: "(case ?twice of Inl e \<Rightarrow> [] | Inr md'' \<Rightarrow> arrays md'' 0) = [''`$`$focus``'']"
    by (simp add: focusMetadata_def emptyMetadata_def evaluation_rules)
  have "?twice \<noteq> ?once"
  proof
    assume "?twice = ?once"
    then have "(case ?twice of Inl e \<Rightarrow> [] | Inr md'' \<Rightarrow> arrays md'' 0) =
               (case ?once of Inl e \<Rightarrow> [] | Inr md' \<Rightarrow> arrays md' 0)"
      by (simp only:)
    then show False
      unfolding one two by simp
  qed
  with one two show ?thesis
    by (simp only: simp_thms)
qed

text \<open>
  C6, amended: the second pass is a no-op when (i) the names are literal identifiers,
  (ii) no name occurs inside the replacement text of any name, that is inside its
  formatted name between \<open>`$\<close> and \<open>`\<close>, and (iii) the name formatter leaves the
  formatted form of every alias unchanged. This holds with and without sharing.
\<close>

theorem transformMetadata_idempotent_apart:
  assumes "tokens md = Some rs"
    and "\<forall>r \<in> set rs. literalName (name (objects md r))"
    and "\<forall>r \<in> set rs. \<forall>r' \<in> set rs.
           \<not> sublist (name (objects md r')) (''`$'' @ fmt (name (objects md r)) @ ''`'')"
    and "\<forall>r \<in> set rs. \<forall>a. alias (objects md r) = Some a \<longrightarrow> fmt (fmt a) = fmt a"
  shows "\<exists>md'. transformMetadata fmt md = Inr md' \<and> transformMetadata fmt md' = Inr md'"
proof -
  let ?alts = "tokenNames md rs"
  let ?R = "replaceAll ?alts (wrapped fmt)"
  let ?F = "map_option (formatAlias fmt)"
  define md' where "md' = md\<lparr>arrays := (\<lambda>a. (map ?R ^^ holders md rs a) (arrays md a)),
      objects := (\<lambda>x. (objects md x)\<lparr>alias := (?F ^^ count_list rs x) (alias (objects md x))\<rparr>)\<rparr>"
  have first: "transformMetadata fmt md = Inr md'"
    using transformMetadata_result[OF assms(1), of fmt] by (simp add: md'_def)
  have toks: "tokens md' = Some rs"
    using assms(1) by (simp add: md'_def)
  have names: "tokenNames md' rs = ?alts"
    by (simp add: tokenNames_def md'_def)
  have held: "holders md' rs a = holders md rs a" for a
    by (simp add: holders_def md'_def)
  have R: "?R (?R s) = ?R s" for s
  proof (cases "rs = []")
    case True
    then show ?thesis
      by (simp add: tokenNames_def replaceAll_no_alternative)
  next
    case False
    have apart: "\<forall>m \<in> set ?alts. \<forall>a \<in> set ?alts. \<not> sublist a (wrapped fmt m)"
      using assms(3) by (simp add: wrapped_def tokenNames_def)
    moreover from apart False have "[] \<notin> set ?alts"
      by (cases rs) (auto simp: tokenNames_def)
    moreover have "\<forall>a \<in> set ?alts. CHR 0x60 \<notin> set a"
      using assms(2) by (auto simp: tokenNames_def dest: literalName_plain)
    ultimately show ?thesis
      by (intro replaceAll_idempotent)
  qed
  then have M: "map ?R (map ?R xs) = map ?R xs" for xs
    by simp
  have arrs: "(map ?R ^^ holders md' rs a) (arrays md' a) = arrays md' a" for a
    using funpow_twice_stable[of "map ?R" "arrays md a" "holders md rs a", OF M]
    by (simp add: held) (simp add: md'_def)
  have als: "(?F ^^ count_list rs x) (alias (objects md' x)) = alias (objects md' x)" for x
  proof (cases "x \<in> set rs")
    case False
    then have "count_list rs x = 0"
      by (simp add: count_list_0_iff)
    then show ?thesis
      by simp
  next
    case True
    have "?F (?F (alias (objects md x))) = ?F (alias (objects md x))"
      using assms(4) True by (cases "alias (objects md x)") (auto simp: formatAlias_def)
    from funpow_twice_stable[of ?F, OF this, of "count_list rs x"] show ?thesis
      by (simp add: md'_def)
  qed
  have "md'\<lparr>arrays := (\<lambda>a. (map ?R ^^ holders md' rs a) (arrays md' a)),
      objects := (\<lambda>x. (objects md' x)\<lparr>alias := (?F ^^ count_list rs x) (alias (objects md' x))\<rparr>)\<rparr> = md'"
    by (simp add: arrs als)
  with transformMetadata_result[OF toks, of fmt] have "transformMetadata fmt md' = Inr md'"
    by (simp only: names)
  with first show ?thesis
    by blast
qed

theorem transformMetadata_idempotent_apart_witness:
  "\<exists>md'. transformMetadata formatTokenName apartMetadata = Inr md' \<and>
          transformMetadata formatTokenName md' = Inr md'"
proof -
  have toks: "tokens apartMetadata = Some [0, 1]"
    by (simp add: apartMetadata_def)
  have lit: "\<forall>r \<in> set [0, 1]. literalName (name (objects apartMetadata r))"
    by (simp add: apartMetadata_def literalName_def)
  have apart: "\<forall>r \<in> set [0, 1]. \<forall>r' \<in> set [0, 1].
      \<not> sublist (name (objects apartMetadata r'))
          (''`$'' @ formatTokenName (name (objects apartMetadata r)) @ ''`'')"
    by (simp add: apartMetadata_def isDigit_def toLowerCase_def sublist_code)
  have aliases: "\<forall>r \<in> set [0, 1]. \<forall>a. alias (objects apartMetadata r) = Some a \<longrightarrow>
      formatTokenName (formatTokenName a) = formatTokenName a"
    by (simp add: apartMetadata_def isDigit_def toLowerCase_def)
  from transformMetadata_idempotent_apart[OF toks lit apart aliases]
  show ?thesis .
qed

end
